theory Spec2Isabelle
  imports Complex_Main "HOL-Library.Sublist"
begin

section \<open>Values of the program\<close>

text \<open>
  The script \<^verbatim>\<open>main.py\<close> asks a weather provider for one JSON document per city,
  flattens it into a dictionary (\<^verbatim>\<open>get_weather\<close>), and folds the dictionaries of all
  cities into two pandas tables. The embedding below follows the script line by line.

  Strings are \<open>string\<close>; the model is exact on ASCII text (characters from 128 on are
  never treated as letters, digits or white space).
\<close>

subsection \<open>Exceptions\<close>

text \<open>
  Every exception the script can raise is a value. \<open>Unmodelled\<close> is not a Python
  exception: it marks an input on which the behaviour of the pandas library is outside
  this model (see \<open>concat_axis1\<close> and \<open>aggregate\<close>).
\<close>

datatype error =
    TransportError
  | JSONDecodeError
  | AttributeError
  | KeyError string
  | TypeError
  | ValueError
  | IndexError
  | Unmodelled

definition and_then :: "error + 'a \<Rightarrow> ('a \<Rightarrow> error + 'b) \<Rightarrow> error + 'b" where
  "and_then r f = (case r of Inl e \<Rightarrow> Inl e | Inr x \<Rightarrow> f x)"

fun map_result :: "('a \<Rightarrow> error + 'b) \<Rightarrow> 'a list \<Rightarrow> error + 'b list" where
  "map_result f [] = Inr []"
| "map_result f (x # xs) =
     and_then (f x) (\<lambda>y. and_then (map_result f xs) (\<lambda>ys. Inr (y # ys)))"

subsection \<open>Parsed JSON\<close>

text \<open>
  What \<^verbatim>\<open>requests.get(url).json()\<close> returns. Python keeps JSON integers as \<^verbatim>\<open>int\<close>
  and other numbers as \<^verbatim>\<open>float\<close>; the script only passes numbers on and compares them
  with integer constants, which Python does exactly, so a finite number is modelled by
  the rational that the parsed \<^verbatim>\<open>int\<close> or \<^verbatim>\<open>float\<close> equals. The three non-finite
  floats that Python's parser also accepts are kept apart. A dictionary is an
  association list read with \<open>map_of\<close>.
\<close>

datatype nonfinite = NaN | PosInf | NegInf

datatype json =
    JNull
  | JBool bool
  | JNum rat
  | JNonFinite nonfinite
  | JStr string
  | JArr "json list"
  | JObj "(string \<times> json) list"

text \<open>Truth value of an object in an \<^verbatim>\<open>if\<close>.\<close>

fun truthy :: "json \<Rightarrow> bool" where
  "truthy JNull = False"
| "truthy (JBool b) = b"
| "truthy (JNum r) = (r \<noteq> 0)"
| "truthy (JNonFinite n) = True"
| "truthy (JStr s) = (s \<noteq> [])"
| "truthy (JArr xs) = (xs \<noteq> [])"
| "truthy (JObj kvs) = (kvs \<noteq> [])"

text \<open>\<^verbatim>\<open>x[k]\<close> with a string key: only a dictionary can be read that way.\<close>

fun subscript :: "json \<Rightarrow> string \<Rightarrow> error + json" where
  "subscript (JObj kvs) k = (case map_of kvs k of None \<Rightarrow> Inl (KeyError k) | Some v \<Rightarrow> Inr v)"
| "subscript j k = Inl TypeError"

definition subscript2 :: "json \<Rightarrow> string \<Rightarrow> string \<Rightarrow> error + json" where
  "subscript2 j k1 k2 = and_then (subscript j k1) (\<lambda>x. subscript x k2)"

definition subscript3 :: "json \<Rightarrow> string \<Rightarrow> string \<Rightarrow> string \<Rightarrow> error + json" where
  "subscript3 j k1 k2 k3 = and_then (subscript2 j k1 k2) (\<lambda>x. subscript x k3)"

text \<open>\<^verbatim>\<open>x.get(k)\<close>: a method of dictionaries only; a missing key gives \<^verbatim>\<open>None\<close>.\<close>

fun dict_get :: "json \<Rightarrow> string \<Rightarrow> error + json" where
  "dict_get (JObj kvs) k = Inr (case map_of kvs k of None \<Rightarrow> JNull | Some v \<Rightarrow> v)"
| "dict_get j k = Inl AttributeError"

text \<open>
  \<^verbatim>\<open>for day in x\<close>: a list gives its elements, a dictionary its keys, a string its
  characters; nothing else can be iterated.
\<close>

fun py_iter :: "json \<Rightarrow> error + json list" where
  "py_iter (JArr xs) = Inr xs"
| "py_iter (JObj kvs) = Inr (map (\<lambda>kv. JStr (fst kv)) kvs)"
| "py_iter (JStr s) = Inr (map (\<lambda>c. JStr [c]) s)"
| "py_iter j = Inl TypeError"

text \<open>\<^verbatim>\<open>"http:" + x\<close>: string concatenation, defined for a string only.\<close>

fun http_prefix :: "json \<Rightarrow> error + string" where
  "http_prefix (JStr s) = Inr (''http:'' @ s)"
| "http_prefix j = Inl TypeError"

subsection \<open>Dates\<close>

text \<open>
  \<^verbatim>\<open>datetime.strptime(s, "%Y-%m-%d")\<close> gives a datetime at midnight, so only the
  calendar date is kept. The library matches the text against
  \<^verbatim>\<open>(\d\d\d\d)-(1[0-2]|0[1-9]|[1-9])-(3[01]|[12]\d|0[1-9]|[1-9]| [1-9])\<close>, requires the whole
  text to be consumed and the date to exist (CPython's \<^verbatim>\<open>_strptime\<close>); every failure
  is a \<^verbatim>\<open>ValueError\<close>.
\<close>

datatype date = Date (year: nat) (month: nat) (day_of_month: nat)

definition date_less :: "date \<Rightarrow> date \<Rightarrow> bool" where
  "date_less a b \<longleftrightarrow>
     year a < year b \<or>
     (year a = year b \<and> (month a < month b \<or> (month a = month b \<and> day_of_month a < day_of_month b)))"

definition is_digit :: "char \<Rightarrow> bool" where
  "is_digit c \<longleftrightarrow> c \<in> set ''0123456789''"

definition digit_val :: "char \<Rightarrow> nat" where
  "digit_val c = of_char c - 48"

definition is_leap :: "nat \<Rightarrow> bool" where
  "is_leap y \<longleftrightarrow> y mod 4 = 0 \<and> (y mod 100 \<noteq> 0 \<or> y mod 400 = 0)"

definition days_in_month :: "nat \<Rightarrow> nat \<Rightarrow> nat" where
  "days_in_month y m =
     (if m = 2 then (if is_leap y then 29 else 28)
      else if m \<in> {4, 6, 9, 11} then 30 else 31)"

fun parse_month :: "string \<Rightarrow> (nat \<times> string) option" where
  "parse_month (a # b # rest) =
     (if a = CHR ''1'' \<and> b \<in> set ''012'' then Some (10 + digit_val b, rest)
      else if a = CHR ''0'' \<and> b \<in> set ''123456789'' then Some (digit_val b, rest)
      else if a \<in> set ''123456789'' then Some (digit_val a, b # rest)
      else None)"
| "parse_month [a] = (if a \<in> set ''123456789'' then Some (digit_val a, []) else None)"
| "parse_month [] = None"

fun parse_day :: "string \<Rightarrow> (nat \<times> string) option" where
  "parse_day (a # b # rest) =
     (if a = CHR ''3'' \<and> b \<in> set ''01'' then Some (30 + digit_val b, rest)
      else if a \<in> set ''12'' \<and> is_digit b then Some (10 * digit_val a + digit_val b, rest)
      else if a = CHR ''0'' \<and> b \<in> set ''123456789'' then Some (digit_val b, rest)
      else if a \<in> set ''123456789'' then Some (digit_val a, b # rest)
      else if a = CHR '' '' \<and> b \<in> set ''123456789'' then Some (digit_val b, rest)
      else None)"
| "parse_day [a] = (if a \<in> set ''123456789'' then Some (digit_val a, []) else None)"
| "parse_day [] = None"

fun strptime_ymd :: "string \<Rightarrow> error + date" where
  "strptime_ymd (y1 # y2 # y3 # y4 # dash1 # rest) =
     (if is_digit y1 \<and> is_digit y2 \<and> is_digit y3 \<and> is_digit y4 \<and> dash1 = CHR ''-'' then
        (case parse_month rest of
           Some (m, dash2 # rest') \<Rightarrow>
             (if dash2 = CHR ''-'' then
                (case parse_day rest' of
                   Some (d, []) \<Rightarrow>
                     (let y = 1000 * digit_val y1 + 100 * digit_val y2 + 10 * digit_val y3 + digit_val y4
                      in if 1 \<le> y \<and> d \<le> days_in_month y m then Inr (Date y m d) else Inl ValueError)
                 | _ \<Rightarrow> Inl ValueError)
              else Inl ValueError)
         | _ \<Rightarrow> Inl ValueError)
      else Inl ValueError)"
| "strptime_ymd s = Inl ValueError"

text \<open>The call in the script: the argument must be a string.\<close>

fun strptime :: "json \<Rightarrow> error + date" where
  "strptime (JStr s) = strptime_ymd s"
| "strptime j = Inl TypeError"

section \<open>The fetcher and normalizer: \<^verbatim>\<open>get_weather\<close>\<close>

text \<open>
  The world outside the script: the API key of the process environment, the HTTP
  transport (\<^verbatim>\<open>requests.get\<close>, which raises or answers), the date the user picks in
  the \<^verbatim>\<open>st.date_input\<close> widget labelled with a city, and the two sliders.
\<close>

record response =
  status_code :: int
  body :: "error + json"

record env =
  API_KEY :: "string option"
  requests_get :: "string \<Rightarrow> error + response"
  date_input :: "json \<Rightarrow> date"
  screen_width :: int
  screen_height :: int

text \<open>The dictionaries built by \<^verbatim>\<open>get_weather\<close>; the keys both share come first.\<close>

record conditions =
  weather :: json
  wind_kph :: json
  humidity :: json
  sunrise :: json
  sunset :: json
  icon :: string

record forecast_day = conditions +
  date :: date
  temp_day :: json
  temp_night :: json
  chance_of_rain :: json
  uv :: json

record city_weather = conditions +
  city :: json
  region :: json
  country :: json
  temp :: json
  wind_dir :: json
  forecast :: "forecast_day list"

definition weather_url :: "string option \<Rightarrow> string \<Rightarrow> string" where
  "weather_url key c =
     ''http://api.weatherapi.com/v1/forecast.json?key='' @
     (case key of None \<Rightarrow> ''None'' | Some k \<Rightarrow> k) @
     ''&q='' @ c @ ''&days=7&aqi=no&alerts=no''"

text \<open>The body of the loop of lines 91 to 104; the keys are read in the order written.\<close>

definition forecast_entry :: "json \<Rightarrow> error + forecast_day" where
  "forecast_entry dy =
     and_then (and_then (subscript dy ''date'') strptime) (\<lambda>v_date.
     and_then (subscript2 dy ''day'' ''maxtemp_c'') (\<lambda>v_temp_day.
     and_then (subscript2 dy ''day'' ''mintemp_c'') (\<lambda>v_temp_night.
     and_then (subscript3 dy ''day'' ''condition'' ''text'') (\<lambda>v_weather.
     and_then (subscript2 dy ''day'' ''maxwind_kph'') (\<lambda>v_wind_kph.
     and_then (subscript2 dy ''day'' ''avghumidity'') (\<lambda>v_humidity.
     and_then (subscript2 dy ''day'' ''daily_chance_of_rain'') (\<lambda>v_chance_of_rain.
     and_then (subscript2 dy ''day'' ''uv'') (\<lambda>v_uv.
     and_then (subscript2 dy ''astro'' ''sunrise'') (\<lambda>v_sunrise.
     and_then (subscript2 dy ''astro'' ''sunset'') (\<lambda>v_sunset.
     and_then (and_then (subscript3 dy ''day'' ''condition'' ''icon'') http_prefix) (\<lambda>v_icon.
     Inr \<lparr>weather = v_weather, wind_kph = v_wind_kph, humidity = v_humidity,
          sunrise = v_sunrise, sunset = v_sunset, icon = v_icon,
          date = v_date, temp_day = v_temp_day, temp_night = v_temp_night,
          chance_of_rain = v_chance_of_rain, uv = v_uv\<rparr>)))))))))))"

text \<open>Lines 87 to 119, from the parsed response on.\<close>

definition normalize_response :: "json \<Rightarrow> error + city_weather" where
  "normalize_response resp =
     and_then (subscript resp ''current'') (\<lambda>current.
     and_then (subscript resp ''location'') (\<lambda>location.
     and_then (subscript2 resp ''forecast'' ''forecastday'') (\<lambda>forecast_days.
     and_then (and_then (py_iter forecast_days) (map_result forecast_entry)) (\<lambda>fc.
     and_then (subscript location ''name'') (\<lambda>v_city.
     and_then (subscript location ''region'') (\<lambda>v_region.
     and_then (subscript location ''country'') (\<lambda>v_country.
     and_then (subscript current ''temp_c'') (\<lambda>v_temp.
     and_then (subscript current ''humidity'') (\<lambda>v_humidity.
     and_then (subscript2 current ''condition'' ''text'') (\<lambda>v_weather.
     and_then (subscript current ''wind_kph'') (\<lambda>v_wind_kph.
     and_then (subscript current ''wind_dir'') (\<lambda>v_wind_dir.
     (case fc of
        [] \<Rightarrow> Inl IndexError
      | day0 # _ \<Rightarrow>
          and_then (and_then (subscript2 current ''condition'' ''icon'') http_prefix) (\<lambda>v_icon.
          Inr \<lparr>weather = v_weather, wind_kph = v_wind_kph, humidity = v_humidity,
               sunrise = sunrise day0, sunset = sunset day0, icon = v_icon,
               city = v_city, region = v_region, country = v_country,
               temp = v_temp, wind_dir = v_wind_dir, forecast = fc\<rparr>))))))))))))))"

text \<open>
  Lines 82 to 86 and the call of the rest. \<^verbatim>\<open>None\<close> is the result for a response whose
  \<^verbatim>\<open>error\<close> entry is true in the sense of \<^verbatim>\<open>if\<close>.
\<close>

definition get_weather :: "env \<Rightarrow> string \<Rightarrow> error + city_weather option" where
  "get_weather e c =
     and_then (requests_get e (weather_url (API_KEY e) c)) (\<lambda>r.
     and_then (body r) (\<lambda>resp.
     and_then (dict_get resp ''error'') (\<lambda>err.
     if truthy err then Inr None
     else and_then (normalize_response resp) (\<lambda>data. Inr (Some data)))))"

section \<open>Text helpers\<close>

text \<open>\<^verbatim>\<open>str.lower\<close>, \<^verbatim>\<open>a in b\<close> on strings, \<^verbatim>\<open>str.strip\<close> and \<^verbatim>\<open>str.split(",")\<close>.\<close>

definition lower_char :: "char \<Rightarrow> char" where
  "lower_char c =
     (case map_of (zip ''ABCDEFGHIJKLMNOPQRSTUVWXYZ'' ''abcdefghijklmnopqrstuvwxyz'') c of
        Some l \<Rightarrow> l
      | None \<Rightarrow> c)"

definition lower :: "string \<Rightarrow> string" where
  "lower s = map lower_char s"

fun is_in :: "string \<Rightarrow> string \<Rightarrow> bool" where
  "is_in a [] = (a = [])"
| "is_in a (b # bs) = (prefix a (b # bs) \<or> is_in a bs)"

definition is_space :: "char \<Rightarrow> bool" where
  "is_space c \<longleftrightarrow> (of_char c :: nat) \<in> {9, 10, 11, 12, 13, 28, 29, 30, 31, 32}"

definition strip :: "string \<Rightarrow> string" where
  "strip s = rev (dropWhile is_space (rev (dropWhile is_space s)))"

fun split_acc :: "string \<Rightarrow> string \<Rightarrow> string list" where
  "split_acc acc [] = [rev acc]"
| "split_acc acc (c # cs) =
     (if c = CHR '','' then rev acc # split_acc [] cs else split_acc (c # acc) cs)"

definition split_comma :: "string \<Rightarrow> string list" where
  "split_comma s = split_acc [] s"

text \<open>Line 129.\<close>

definition cities :: "string \<Rightarrow> string list" where
  "cities cities_input = map strip (split_comma cities_input)"

section \<open>Animations\<close>

text \<open>
  \<^verbatim>\<open>load_lottie\<close> (lines 20 to 24). Python's \<^verbatim>\<open>None\<close> and JSON's \<^verbatim>\<open>null\<close> are the
  same object, so the result is a \<open>json\<close> and \<open>JNull\<close> stands for \<^verbatim>\<open>None\<close>.
\<close>

definition load_lottie :: "env \<Rightarrow> string \<Rightarrow> error + json" where
  "load_lottie e url =
     and_then (requests_get e url) (\<lambda>r.
     if status_code r \<noteq> 200 then Inr JNull else body r)"

definition WEATHER_LOTTIE :: "(string \<times> string) list" where
  "WEATHER_LOTTIE =
     [(''Sunny'', ''https://assets3.lottiefiles.com/packages/lf20_sun.json''),
      (''Clear'', ''https://assets3.lottiefiles.com/packages/lf20_sun.json''),
      (''Partly cloudy'', ''https://assets5.lottiefiles.com/packages/lf20_cloudy.json''),
      (''Cloudy'', ''https://assets5.lottiefiles.com/packages/lf20_cloudy.json''),
      (''Rain'', ''https://assets3.lottiefiles.com/packages/lf20_rain.json''),
      (''Snow'', ''https://assets3.lottiefiles.com/packages/lf20_snow.json''),
      (''Thunderstorm'', ''https://assets3.lottiefiles.com/packages/lf20_thunder.json''),
      (''Mist'', ''https://assets3.lottiefiles.com/packages/lf20_fog.json'')]"

text \<open>
  Lines 37 to 41. \<^verbatim>\<open>condition.lower()\<close> exists for a string only, and the table is
  not empty, so any other value raises in the first round.
\<close>

definition get_lottie_for_condition :: "env \<Rightarrow> json \<Rightarrow> error + json" where
  "get_lottie_for_condition e condition =
     (case condition of
        JStr c \<Rightarrow>
          (case find (\<lambda>kv. is_in (lower (fst kv)) (lower c)) WEATHER_LOTTIE of
             Some kv \<Rightarrow> load_lottie e (snd kv)
           | None \<Rightarrow> Inr JNull)
      | _ \<Rightarrow> Inl AttributeError)"

section \<open>Tables and the page\<close>

text \<open>
  A pandas frame indexed by date, as far as the script uses one: the row labels and the
  columns in order, each column a name and its cells by date. A date without a cell in a
  column is a gap (pandas shows \<^verbatim>\<open>NaN\<close>). Only the set of row labels is meant: the order
  in which pandas lists the labels of an outer join depends on its version.
\<close>

record frame =
  idx :: "date list"
  cols :: "(string \<times> (date \<times> json) list) list"

definition empty_frame :: frame where
  "empty_frame = \<lparr>idx = [], cols = []\<rparr>"

text \<open>\<^verbatim>\<open>DataFrame.empty\<close>: no row or no column.\<close>

definition frame_empty :: "frame \<Rightarrow> bool" where
  "frame_empty f \<longleftrightarrow> idx f = [] \<or> cols f = []"

text \<open>The cell of the \<open>i\<close>-th column at a date; \<open>None\<close> is a gap.\<close>

definition cell :: "frame \<Rightarrow> nat \<Rightarrow> date \<Rightarrow> json option" where
  "cell f i d = map_of (snd (cols f ! i)) d"

text \<open>
  \<^verbatim>\<open>pd.concat([a, b], axis=1)\<close>: the columns of both, side by side, over the union of
  the row labels (an outer join). pandas aligns on labels; what it does with a frame
  that repeats a label is not modelled.
\<close>

definition concat_axis1 :: "frame \<Rightarrow> frame \<Rightarrow> error + frame" where
  "concat_axis1 a b =
     (if distinct (idx a) \<and> distinct (idx b)
      then Inr \<lparr>idx = idx a @ filter (\<lambda>d. d \<notin> set (idx a)) (idx b), cols = cols a @ cols b\<rparr>
      else Inl Unmodelled)"

text \<open>Lines 207 to 209: the two temperature columns of one city, indexed by date.\<close>

definition temp_df :: "string \<Rightarrow> forecast_day list \<Rightarrow> frame" where
  "temp_df name fc =
     \<lparr>idx = map date fc,
      cols = [(name @ ''_day'', map (\<lambda>d. (date d, temp_day d)) fc),
              (name @ ''_night'', map (\<lambda>d. (date d, temp_night d)) fc)]\<rparr>"

text \<open>Lines 213 and 214: the forecast rows of one city, each with the city in a new column.\<close>

definition city_csv_df :: "string \<Rightarrow> forecast_day list \<Rightarrow> (forecast_day \<times> string) list" where
  "city_csv_df name fc = map (\<lambda>d. (d, name)) fc"

datatype alert = HotDay | ColdDay | HighUV | HighRain

text \<open>
  What the script puts on the page, one value per call of the rendering library. The
  calls are recorded, not interpreted: the model takes every one of them to return (the
  date widget with the date the environment gives for its city), whatever the library
  itself would make of the page. \<open>Write\<close> stands for an \<^verbatim>\<open>st.write\<close> of a fixed
  text with the listed values in it.
\<close>

datatype event =
    ApiKeyError
  | NotFoundError string
  | StLottie json int int
  | StImage string int
  | OverlayOpen
  | OverlayClose
  | Subheader json json
  | Write string "json list"
  | DateInput json
  | ForecastHeading date
  | AlertBanner alert
  | Chart frame
  | DownloadButton "(forecast_day \<times> string) list"

record state =
  comparison_df :: frame
  download_df :: "(forecast_day \<times> string) list"
  page :: "event list"
  fetched :: "string list"

section \<open>Alerts\<close>

text \<open>
  Python's comparison of a value with an integer constant: numbers and booleans compare
  by value, a non-finite float by its sign (\<^verbatim>\<open>nan\<close> compares false), anything else
  raises \<^verbatim>\<open>TypeError\<close>.
\<close>

fun py_gt :: "json \<Rightarrow> int \<Rightarrow> error + bool" where
  "py_gt (JNum r) n = Inr (of_int n < r)"
| "py_gt (JBool b) n = Inr (n < (if b then 1 else 0))"
| "py_gt (JNonFinite x) n = Inr (x = PosInf)"
| "py_gt j n = Inl TypeError"

fun py_lt :: "json \<Rightarrow> int \<Rightarrow> error + bool" where
  "py_lt (JNum r) n = Inr (r < of_int n)"
| "py_lt (JBool b) n = Inr ((if b then 1 else 0) < n)"
| "py_lt (JNonFinite x) n = Inr (x = NegInf)"
| "py_lt j n = Inl TypeError"

fun py_ge :: "json \<Rightarrow> int \<Rightarrow> error + bool" where
  "py_ge (JNum r) n = Inr (of_int n \<le> r)"
| "py_ge (JBool b) n = Inr (n \<le> (if b then 1 else 0))"
| "py_ge (JNonFinite x) n = Inr (x = PosInf)"
| "py_ge j n = Inl TypeError"

text \<open>Lines 197 to 204, the banners in the order shown.\<close>

definition extreme_alerts :: "forecast_day \<Rightarrow> error + alert list" where
  "extreme_alerts d =
     and_then (py_gt (temp_day d) 35) (\<lambda>hot.
     and_then (if hot then Inr [HotDay]
               else and_then (py_lt (temp_day d) 10) (\<lambda>cold.
                    Inr (if cold then [ColdDay] else []))) (\<lambda>a1.
     and_then (py_ge (uv d) 7) (\<lambda>high_uv.
     and_then (py_ge (chance_of_rain d) 50) (\<lambda>rain.
     Inr (a1 @ (if high_uv then [HighUV] else []) @ (if rain then [HighRain] else []))))))"

section \<open>The loop over the cities\<close>

text \<open>Lines 46 to 59.\<close>

definition set_full_bg_animation :: "env \<Rightarrow> json \<Rightarrow> error + event list" where
  "set_full_bg_animation e condition =
     (case condition of
        JStr c \<Rightarrow>
          (let l = lower c;
               url =
                 (if is_in ''sun'' l \<or> is_in ''clear'' l
                    then Some ''https://assets3.lottiefiles.com/packages/lf20_sun.json''
                  else if is_in ''cloud'' l
                    then Some ''https://assets5.lottiefiles.com/packages/lf20_cloudy.json''
                  else if is_in ''rain'' l \<or> is_in ''thunder'' l
                    then Some ''https://assets3.lottiefiles.com/packages/lf20_rain.json''
                  else if is_in ''snow'' l
                    then Some ''https://assets3.lottiefiles.com/packages/lf20_snow.json''
                  else None)
           in case url of
                None \<Rightarrow> Inr []
              | Some u \<Rightarrow>
                  and_then (load_lottie e u) (\<lambda>lottie_bg.
                  Inr (if truthy lottie_bg
                       then [StLottie lottie_bg (screen_height e) (screen_width e)] else [])))
      | _ \<Rightarrow> Inl AttributeError)"

text \<open>Lines 153 to 169: the current conditions of a city.\<close>

definition current_view :: "env \<Rightarrow> city_weather \<Rightarrow> error + event list" where
  "current_view e w =
     and_then (set_full_bg_animation e (weather w)) (\<lambda>bg.
     and_then (get_lottie_for_condition e (weather w)) (\<lambda>lottie_anim.
     Inr (bg @
          [OverlayOpen, Subheader (city w) (country w),
           (if truthy lottie_anim
            then StLottie lottie_anim 150 (min (screen_width e div 3) 300)
            else StImage (icon w) 60),
           Write ''Condition'' [weather w],
           Write ''Temperature'' [temp w],
           Write ''Humidity'' [humidity w],
           Write ''Wind'' [wind_kph w, wind_dir w],
           Write ''Sunrise Sunset'' [sunrise w, sunset w]])))"

text \<open>Line 178.\<close>

definition forecast_for_date :: "city_weather \<Rightarrow> date \<Rightarrow> forecast_day option" where
  "forecast_for_date w selected_date = find (\<lambda>d. date d = selected_date) (forecast w)"

text \<open>Lines 180 to 204: the forecast of the selected day and its alerts.\<close>

definition forecast_view :: "env \<Rightarrow> date \<Rightarrow> forecast_day \<Rightarrow> error + event list" where
  "forecast_view e selected_date d =
     and_then (get_lottie_for_condition e (weather d)) (\<lambda>lottie_forecast.
     and_then (extreme_alerts d) (\<lambda>alerts.
     Inr ([ForecastHeading selected_date,
           (if truthy lottie_forecast
            then StLottie lottie_forecast 120 (min (screen_width e div 3) 300)
            else StImage (icon d) 50),
           Write ''Day Temp'' [temp_day d],
           Write ''Night Temp'' [temp_night d],
           Write ''Condition'' [weather d],
           Write ''Humidity'' [humidity d],
           Write ''Wind'' [wind_kph d],
           Write ''Chance of Rain'' [chance_of_rain d],
           Write ''UV Index'' [uv d],
           Write ''Sunrise Sunset'' [sunrise d, sunset d]] @
          map AlertBanner alerts)))"

text \<open>
  Lines 207 to 215: both tables take the city in. The city's name labels two columns and
  fills one; the model covers a name that is a string.
\<close>

definition aggregate :: "state \<Rightarrow> city_weather \<Rightarrow> error + state" where
  "aggregate st w =
     (case city w of
        JStr name \<Rightarrow>
          and_then (concat_axis1 (comparison_df st) (temp_df name (forecast w))) (\<lambda>cmp.
          Inr (st\<lparr>comparison_df := cmp,
                  download_df := download_df st @ city_csv_df name (forecast w)\<rparr>))
      | _ \<Rightarrow> Inl Unmodelled)"

text \<open>
  Lines 149 to 219: one round of the loop. \<open>fetched\<close> lists the addresses requested by
  \<^verbatim>\<open>get_weather\<close>, which requests exactly one per call (line 84).
\<close>

definition process_city :: "env \<Rightarrow> state \<Rightarrow> string \<Rightarrow> error + state" where
  "process_city e st c =
     and_then (get_weather e c) (\<lambda>r.
     let st1 = st\<lparr>fetched := fetched st @ [weather_url (API_KEY e) c]\<rparr> in
     case r of
       None \<Rightarrow> Inr (st1\<lparr>page := page st1 @ [NotFoundError c]\<rparr>)
     | Some w \<Rightarrow>
         and_then (current_view e w) (\<lambda>v1.
         let selected_date = date_input e (city w) in
         and_then (case forecast_for_date w selected_date of
                     None \<Rightarrow> Inr []
                   | Some d \<Rightarrow> forecast_view e selected_date d) (\<lambda>v2.
         and_then (aggregate st1 w) (\<lambda>st2.
         Inr (st2\<lparr>page := page st2 @ v1 @ [DateInput (city w)] @ v2 @ [OverlayClose]\<rparr>)))))"

fun city_loop :: "env \<Rightarrow> state \<Rightarrow> string list \<Rightarrow> error + state" where
  "city_loop e st [] = Inr st"
| "city_loop e st (c # cs) = and_then (process_city e st c) (\<lambda>st'. city_loop e st' cs)"

text \<open>Lines 13 to 15 and 136 to 137: the state before the loop.\<close>

definition initial :: "env \<Rightarrow> state" where
  "initial e =
     \<lparr>comparison_df = empty_frame, download_df = [],
      page = (case API_KEY e of
                None \<Rightarrow> [ApiKeyError]
              | Some k \<Rightarrow> if k = [] then [ApiKeyError] else []),
      fetched = []\<rparr>"

text \<open>Lines 224 to 245: the chart and the download button, each only for a table with content.\<close>

definition render_tables :: "state \<Rightarrow> state" where
  "render_tables st =
     st\<lparr>page := page st @
          (if \<not> frame_empty (comparison_df st) then [Chart (comparison_df st)] else []) @
          (if download_df st \<noteq> [] then [DownloadButton (download_df st)] else [])\<rparr>"

text \<open>The whole script, from the text of the input box to the finished page.\<close>

definition run :: "env \<Rightarrow> string \<Rightarrow> error + state" where
  "run e cities_input =
     and_then (city_loop e (initial e) (cities cities_input)) (\<lambda>st. Inr (render_tables st))"

section \<open>Notions used in the statements\<close>

text \<open>
  The dictionaries of the cities that \<open>get_weather\<close> finds, in input order; the export
  rows and the comparison columns that one such city contributes.
\<close>

definition found :: "env \<Rightarrow> string list \<Rightarrow> city_weather list" where
  "found e cs = concat (map (\<lambda>c. case get_weather e c of Inr (Some w) \<Rightarrow> [w] | _ \<Rightarrow> []) cs)"

definition export_rows :: "city_weather \<Rightarrow> (forecast_day \<times> string) list" where
  "export_rows w = (case city w of JStr name \<Rightarrow> city_csv_df name (forecast w) | _ \<Rightarrow> [])"

definition temp_cols :: "city_weather \<Rightarrow> (string \<times> (date \<times> json) list) list" where
  "temp_cols w = (case city w of JStr name \<Rightarrow> cols (temp_df name (forecast w)) | _ \<Rightarrow> [])"

section \<open>Sample provider data\<close>

text \<open>
  Responses in the provider's shape, used to run the model on concrete input. A day has
  its date, its highest and lowest temperature, its UV index, its chance of rain and
  its icon reference; a response has the place's name, the icon reference of the
  current conditions and the forecast days.
\<close>

definition sample_day :: "string \<Rightarrow> rat \<Rightarrow> rat \<Rightarrow> rat \<Rightarrow> rat \<Rightarrow> string \<Rightarrow> json" where
  "sample_day dt hi lo u rain ic =
     JObj [(''date'', JStr dt),
           (''day'', JObj [(''maxtemp_c'', JNum hi), (''mintemp_c'', JNum lo),
                           (''maxwind_kph'', JNum 12), (''avghumidity'', JNum 60),
                           (''daily_chance_of_rain'', JNum rain),
                           (''condition'', JObj [(''text'', JStr ''Sunny''), (''icon'', JStr ic)]),
                           (''uv'', JNum u)]),
           (''astro'', JObj [(''sunrise'', JStr ''05:20 AM''), (''sunset'', JStr ''06:40 PM'')])]"

definition sample_response :: "string \<Rightarrow> string \<Rightarrow> json list \<Rightarrow> json" where
  "sample_response name ic days =
     JObj [(''location'', JObj [(''name'', JStr name), (''region'', JStr ''Bagmati''),
                                (''country'', JStr ''Nepal'')]),
           (''current'', JObj [(''temp_c'', JNum 21), (''humidity'', JNum 55),
                               (''condition'', JObj [(''text'', JStr ''Mist''), (''icon'', JStr ic)]),
                               (''wind_kph'', JNum 7), (''wind_dir'', JStr ''NW'')]),
           (''forecast'', JObj [(''forecastday'', JArr days)])]"

definition not_found_response :: json where
  "not_found_response =
     JObj [(''error'', JObj [(''code'', JNum 1006),
                             (''message'', JStr ''No matching location found.'')])]"

text \<open>
  A transport that answers the forecast request for each listed city text with the
  listed document, and every other request (the animations among them) with status 404.
\<close>

definition sample_env :: "(string \<times> json) list \<Rightarrow> date \<Rightarrow> env" where
  "sample_env table picked =
     \<lparr>API_KEY = Some ''k'',
      requests_get = (\<lambda>url.
        case map_of (map (\<lambda>cj. (weather_url (Some ''k'') (fst cj), snd cj)) table) url of
          Some j \<Rightarrow> Inr \<lparr>status_code = 200, body = Inr j\<rparr>
        | None \<Rightarrow> Inr \<lparr>status_code = 404, body = Inl JSONDecodeError\<rparr>),
      date_input = (\<lambda>label. picked),
      screen_width = 800,
      screen_height = 800\<rparr>"

definition relative_icons :: json where
  "relative_icons =
     sample_response ''Kathmandu'' ''//cdn.weatherapi.com/weather/64x64/day/143.png''
       [sample_day ''2024-05-01'' 30 18 5 20 ''//cdn.weatherapi.com/weather/64x64/day/113.png'']"

definition absolute_icons :: json where
  "absolute_icons =
     sample_response ''Kathmandu'' ''http://cdn.weatherapi.com/weather/64x64/day/143.png''
       [sample_day ''2024-05-01'' 30 18 5 20 ''http://cdn.weatherapi.com/weather/64x64/day/113.png'']"

definition boundary_day :: "rat \<Rightarrow> rat \<Rightarrow> rat \<Rightarrow> forecast_day" where
  "boundary_day t u r =
     \<lparr>weather = JStr ''Sunny'', wind_kph = JNum 12, humidity = JNum 60,
      sunrise = JStr ''05:20 AM'', sunset = JStr ''06:40 PM'', icon = ''http://c/113.png'',
      date = Date 2024 5 1, temp_day = JNum t, temp_night = JNum 5,
      chance_of_rain = JNum r, uv = JNum u\<rparr>"

definition offline_env :: env where
  "offline_env = (sample_env [] (Date 2024 5 1))\<lparr>requests_get := (\<lambda>url. Inl TransportError)\<rparr>"

definition no_forecast_response :: json where
  "no_forecast_response =
     JObj [(''location'', JObj [(''name'', JStr ''Kathmandu''), (''region'', JStr ''Bagmati''),
                                (''country'', JStr ''Nepal'')]),
           (''current'', JObj [(''temp_c'', JNum 21), (''humidity'', JNum 55),
                               (''condition'', JObj [(''text'', JStr ''Mist''),
                                                     (''icon'', JStr ''//c/143.png'')]),
                               (''wind_kph'', JNum 7), (''wind_dir'', JStr ''NW'')])]"

definition null_error_response :: json where
  "null_error_response =
     JObj [(''error'', JNull),
           (''location'', JObj [(''name'', JStr ''Kathmandu'')])]"

definition plain_day :: "string \<Rightarrow> json" where
  "plain_day dt = sample_day dt 30 18 5 20 ''//c/113.png''"

definition seven_days :: json where
  "seven_days = sample_response ''Kathmandu'' ''//c/143.png''
     [plain_day ''2024-05-01'', plain_day ''2024-05-02'', plain_day ''2024-05-03'',
      plain_day ''2024-05-04'', plain_day ''2024-05-05'', plain_day ''2024-05-06'',
      plain_day ''2024-05-07'']"

definition three_days :: json where
  "three_days = sample_response ''Kathmandu'' ''//c/143.png''
     [plain_day ''2024-05-01'', plain_day ''2024-05-02'', plain_day ''2024-05-03'']"

text \<open>
  More sample data: a response built from a list of date texts, the dictionary it is
  normalized to, and tables of responses for the sample transport.
\<close>

definition entry_of :: "date \<Rightarrow> forecast_day" where
  "entry_of d =
     \<lparr>weather = JStr ''Sunny'', wind_kph = JNum 12, humidity = JNum 60,
      sunrise = JStr ''05:20 AM'', sunset = JStr ''06:40 PM'', icon = ''http://c/113.png'',
      date = d, temp_day = JNum 30, temp_night = JNum 18,
      chance_of_rain = JNum 20, uv = JNum 5\<rparr>"

definition weather_of :: "string \<Rightarrow> date list \<Rightarrow> city_weather" where
  "weather_of name ds =
     \<lparr>weather = JStr ''Mist'', wind_kph = JNum 7, humidity = JNum 55,
      sunrise = JStr ''05:20 AM'', sunset = JStr ''06:40 PM'', icon = ''http://c/143.png'',
      city = JStr name, region = JStr ''Bagmati'', country = JStr ''Nepal'',
      temp = JNum 21, wind_dir = JStr ''NW'', forecast = map entry_of ds\<rparr>"

definition city_response :: "string \<Rightarrow> string list \<Rightarrow> json" where
  "city_response name dts = sample_response name ''//c/143.png'' (map plain_day dts)"

text \<open>An entry of a sample table on which a round of the loop returns.\<close>

definition well_formed_entry :: "json \<Rightarrow> bool" where
  "well_formed_entry j \<longleftrightarrow>
     j = not_found_response \<or>
     (\<exists>name dts ds. j = city_response name dts \<and> map_result strptime_ymd dts = Inr ds \<and>
        ds \<noteq> [] \<and> distinct ds)"

definition may_week :: "string list" where
  "may_week = [''2024-05-01'', ''2024-05-02'', ''2024-05-03'', ''2024-05-04'', ''2024-05-05'',
     ''2024-05-06'', ''2024-05-07'']"

definition may_dates :: "date list" where
  "may_dates = [Date 2024 5 1, Date 2024 5 2, Date 2024 5 3, Date 2024 5 4, Date 2024 5 5,
     Date 2024 5 6, Date 2024 5 7]"

definition two_cities_table :: "(string \<times> json) list" where
  "two_cities_table =
     [(''Kathmandu'', city_response ''Kathmandu'' may_week),
      (''Atlantis'', not_found_response),
      (''Lalitpur'', city_response ''Lalitpur'' may_week)]"

definition three_day_table :: "(string \<times> json) list" where
  "three_day_table = [(''Kathmandu'', city_response ''Kathmandu'' (take 3 may_week))]"

definition nowhere_table :: "(string \<times> json) list" where
  "nowhere_table = [(''Nowhereville'', not_found_response)]"

definition one_city_table :: "(string \<times> json) list" where
  "one_city_table = [(''Kathmandu'', city_response ''Kathmandu'' may_week), ('''', not_found_response)]"


section \<open>Basic facts\<close>

lemma and_then_Inl [simp]: "and_then (Inl x) f = Inl x"
  by (simp add: and_then_def)

lemma and_then_Inr [simp]: "and_then (Inr x) f = f x"
  by (simp add: and_then_def)

lemma and_then_eq_Inr: "and_then r f = Inr y \<longleftrightarrow> (\<exists>x. r = Inr x \<and> f x = Inr y)"
  by (cases r) simp_all

lemma http_prefix_eq_Inr: "http_prefix j = Inr s \<longleftrightarrow> (\<exists>t. j = JStr t \<and> s = ''http:'' @ t)"
  by (cases j) auto

lemma map_result_Inr:
  "map_result f xs = Inr ys \<Longrightarrow> list_all2 (\<lambda>x y. f x = Inr y) xs ys"
proof (induction xs arbitrary: ys)
  case Nil
  then show ?case by simp
next
  case (Cons x xs)
  from Cons.prems obtain y ys' where y: "f x = Inr y" and r: "map_result f xs = Inr ys'"
    and e: "ys = y # ys'"
    by (auto simp: and_then_eq_Inr)
  from Cons.IH [OF r] y e show ?case by simp
qed

lemma map_result_compose:
  "map_result f xs = Inr ys \<Longrightarrow> (\<And>x y. f x = Inr y \<Longrightarrow> g x = Inr (h y))
     \<Longrightarrow> map_result g xs = Inr (map h ys)"
proof (induction xs arbitrary: ys)
  case Nil
  then show ?case by simp
next
  case (Cons x xs)
  from Cons.prems(1) obtain y ys' where y: "f x = Inr y" and r: "map_result f xs = Inr ys'"
    and e: "ys = y # ys'"
    by (auto simp: and_then_eq_Inr)
  from Cons.IH [OF r Cons.prems(2)] have "map_result g xs = Inr (map h ys')" by simp
  with Cons.prems(2) [OF y] e show ?case by simp
qed

lemma forecast_entry_Inr:
  assumes "forecast_entry dy = Inr d"
  shows "and_then (subscript dy ''date'') strptime = Inr (date d)"
    and "subscript2 dy ''day'' ''maxtemp_c'' = Inr (temp_day d)"
    and "subscript2 dy ''day'' ''mintemp_c'' = Inr (temp_night d)"
    and "subscript2 dy ''astro'' ''sunrise'' = Inr (sunrise d)"
    and "subscript2 dy ''astro'' ''sunset'' = Inr (sunset d)"
    and "and_then (subscript3 dy ''day'' ''condition'' ''icon'') http_prefix = Inr (icon d)"
  using assms unfolding forecast_entry_def and_then_eq_Inr by auto

lemma normalize_response_Inr:
  assumes "normalize_response resp = Inr w"
  obtains current location forecast_days days day0 rest v_icon where
    "subscript resp ''current'' = Inr current"
    "subscript resp ''location'' = Inr location"
    "subscript2 resp ''forecast'' ''forecastday'' = Inr forecast_days"
    "py_iter forecast_days = Inr days"
    "map_result forecast_entry days = Inr (day0 # rest)"
    "subscript location ''name'' = Inr (city w)"
    "subscript2 current ''condition'' ''icon'' = Inr v_icon"
    "http_prefix v_icon = Inr (icon w)"
    "forecast w = day0 # rest"
    "sunrise w = sunrise day0"
    "sunset w = sunset day0"
  using assms unfolding normalize_response_def and_then_eq_Inr
  apply (elim exE conjE)
  apply (auto split: list.splits simp: and_then_eq_Inr)
  done

lemma normalize_response_forecast:
  assumes "normalize_response resp = Inr w"
  shows "\<exists>days. and_then (subscript2 resp ''forecast'' ''forecastday'') py_iter = Inr days \<and>
           map_result forecast_entry days = Inr (forecast w)"
  using assms by (elim normalize_response_Inr) (simp add: and_then_eq_Inr)

lemmas fixture_defs = sample_day_def sample_response_def not_found_response_def sample_env_def

lemmas normalize_defs = normalize_response_def forecast_entry_def subscript2_def subscript3_def
  is_digit_def digit_val_def days_in_month_def is_leap_def

subsection \<open>Icon references\<close>

text \<open>
  C1, in the form the code satisfies. The normalizer puts \<^verbatim>\<open>http:\<close> in front of
  every icon reference, whatever the reference is: a protocol-relative \<^verbatim>\<open>//x\<close>
  becomes \<^verbatim>\<open>http://x\<close>, an absolute \<^verbatim>\<open>http://x\<close> becomes \<^verbatim>\<open>http:http://x\<close>.
  This holds for the icon of the current conditions and for the icon of every forecast
  day of a normalized response.
\<close>

theorem icon_prefix_unconditional:
  "http_prefix (JStr (''//'' @ x)) = Inr (''http://'' @ x) \<and>
   http_prefix (JStr (''http://'' @ x)) = Inr (''http:http://'' @ x) \<and>
   (normalize_response resp = Inr w \<longrightarrow>
      (\<exists>s. subscript3 resp ''current'' ''condition'' ''icon'' = Inr (JStr s) \<and>
           icon w = ''http:'' @ s) \<and>
      (\<exists>days. and_then (subscript2 resp ''forecast'' ''forecastday'') py_iter = Inr days \<and>
           length (forecast w) = length days \<and>
           (\<forall>i<length days. \<exists>s.
              subscript3 (days ! i) ''day'' ''condition'' ''icon'' = Inr (JStr s) \<and>
              icon (forecast w ! i) = ''http:'' @ s)))"
proof (intro conjI impI)
  assume n: "normalize_response resp = Inr w"
  from n show "\<exists>s. subscript3 resp ''current'' ''condition'' ''icon'' = Inr (JStr s) \<and>
      icon w = ''http:'' @ s"
    by (elim normalize_response_Inr)
      (auto simp: subscript3_def subscript2_def and_then_eq_Inr http_prefix_eq_Inr)
  from normalize_response_forecast [OF n] obtain days where
    d: "and_then (subscript2 resp ''forecast'' ''forecastday'') py_iter = Inr days" and
    m: "map_result forecast_entry days = Inr (forecast w)"
    by blast
  from map_result_Inr [OF m]
  have l: "list_all2 (\<lambda>x y. forecast_entry x = Inr y) days (forecast w)" .
  have "\<exists>s. subscript3 (days ! i) ''day'' ''condition'' ''icon'' = Inr (JStr s) \<and>
      icon (forecast w ! i) = ''http:'' @ s" if "i < length days" for i
  proof -
    from l that have "forecast_entry (days ! i) = Inr (forecast w ! i)"
      by (simp add: list_all2_conv_all_nth)
    from forecast_entry_Inr(6) [OF this] show ?thesis
      by (auto simp: and_then_eq_Inr http_prefix_eq_Inr)
  qed
  with d l show "\<exists>days. and_then (subscript2 resp ''forecast'' ''forecastday'') py_iter = Inr days \<and>
      length (forecast w) = length days \<and>
      (\<forall>i<length days. \<exists>s.
         subscript3 (days ! i) ''day'' ''condition'' ''icon'' = Inr (JStr s) \<and>
         icon (forecast w ! i) = ''http:'' @ s)"
    by (auto simp: list_all2_lengthD)
qed simp_all

lemma normalize_relative_icons:
  "normalize_response relative_icons =
     Inr \<lparr>weather = JStr ''Mist'', wind_kph = JNum 7, humidity = JNum 55,
          sunrise = JStr ''05:20 AM'', sunset = JStr ''06:40 PM'',
          icon = ''http://cdn.weatherapi.com/weather/64x64/day/143.png'',
          city = JStr ''Kathmandu'', region = JStr ''Bagmati'', country = JStr ''Nepal'',
          temp = JNum 21, wind_dir = JStr ''NW'',
          forecast =
            [\<lparr>weather = JStr ''Sunny'', wind_kph = JNum 12, humidity = JNum 60,
              sunrise = JStr ''05:20 AM'', sunset = JStr ''06:40 PM'',
              icon = ''http://cdn.weatherapi.com/weather/64x64/day/113.png'',
              date = Date 2024 5 1, temp_day = JNum 30, temp_night = JNum 18,
              chance_of_rain = JNum 20, uv = JNum 5\<rparr>]\<rparr>"
  by (simp add: relative_icons_def fixture_defs normalize_defs)

theorem icon_prefix_unconditional_witness:
  "\<not> isl (normalize_response relative_icons) \<and>
   icon (projr (normalize_response relative_icons)) =
     ''http://cdn.weatherapi.com/weather/64x64/day/143.png'' \<and>
   map icon (forecast (projr (normalize_response relative_icons))) =
     [''http://cdn.weatherapi.com/weather/64x64/day/113.png'']"
  using icon_prefix_unconditional [of "[]" relative_icons "projr (normalize_response relative_icons)"]
  by (simp add: normalize_relative_icons)

theorem icon_double_prefix_counterexample:
  "\<not> isl (normalize_response absolute_icons) \<and>
   icon (projr (normalize_response absolute_icons)) =
     ''http:http://cdn.weatherapi.com/weather/64x64/day/143.png'' \<and>
   map icon (forecast (projr (normalize_response absolute_icons))) =
     [''http:http://cdn.weatherapi.com/weather/64x64/day/113.png'']"
  by (simp add: absolute_icons_def fixture_defs normalize_defs)

subsection \<open>Alerts\<close>

lemma extreme_alerts_not_both:
  assumes "extreme_alerts d = Inr al"
  shows "\<not> (HotDay \<in> set al \<and> ColdDay \<in> set al)"
  using assms
  by (auto simp: extreme_alerts_def and_then_eq_Inr split: if_splits)

text \<open>
  C2. For a forecast day whose day temperature \<open>t\<close>, UV index \<open>u\<close> and chance of rain
  \<open>r\<close> are numbers, the banners shown are exactly those of the threshold table, each
  once: hot day iff \<open>t > 35\<close>, cold day iff \<open>t < 10\<close>, high UV iff \<open>u \<ge> 7\<close>, high
  chance of rain iff \<open>r \<ge> 50\<close>. So \<open>t = 35\<close> gives no hot-day banner, \<open>t = 10\<close> no
  cold-day banner, \<open>u = 7\<close> the UV banner and \<open>r = 50\<close> the rain banner. For any day at
  all, the hot-day and the cold-day banner are never shown together.
\<close>

theorem extreme_alerts_thresholds:
  "(extreme_alerts d = Inr al \<longrightarrow> \<not> (HotDay \<in> set al \<and> ColdDay \<in> set al)) \<and>
   (temp_day d = JNum t \<and> uv d = JNum u \<and> chance_of_rain d = JNum r \<longrightarrow>
      (\<exists>bl. extreme_alerts d = Inr bl \<and> distinct bl \<and>
         (HotDay \<in> set bl \<longleftrightarrow> 35 < t) \<and>
         (ColdDay \<in> set bl \<longleftrightarrow> t < 10) \<and>
         (HighUV \<in> set bl \<longleftrightarrow> 7 \<le> u) \<and>
         (HighRain \<in> set bl \<longleftrightarrow> 50 \<le> r)))"
proof (intro conjI impI)
  assume "extreme_alerts d = Inr al"
  then show "\<not> (HotDay \<in> set al \<and> ColdDay \<in> set al)"
    by (rule extreme_alerts_not_both)
next
  assume "temp_day d = JNum t \<and> uv d = JNum u \<and> chance_of_rain d = JNum r"
  then show "\<exists>bl. extreme_alerts d = Inr bl \<and> distinct bl \<and>
         (HotDay \<in> set bl \<longleftrightarrow> 35 < t) \<and>
         (ColdDay \<in> set bl \<longleftrightarrow> t < 10) \<and>
         (HighUV \<in> set bl \<longleftrightarrow> 7 \<le> u) \<and>
         (HighRain \<in> set bl \<longleftrightarrow> 50 \<le> r)"
    by (simp add: extreme_alerts_def)
qed

theorem extreme_alerts_thresholds_witness:
  "extreme_alerts (boundary_day 35 7 50) = Inr [HighUV, HighRain] \<and>
   extreme_alerts (boundary_day 10 (699 / 100) 49) = Inr [] \<and>
   extreme_alerts (boundary_day (3501 / 100) 0 0) = Inr [HotDay] \<and>
   extreme_alerts (boundary_day (999 / 100) 0 0) = Inr [ColdDay]"
  using extreme_alerts_thresholds [of "boundary_day 35 7 50" "[HighUV, HighRain]" 35 7 50]
  by (simp add: boundary_day_def extreme_alerts_def)

subsection \<open>Not found, and what is not caught\<close>

lemma normalize_response_missing_key:
  assumes "map_of kvs ''current'' = None \<or> map_of kvs ''location'' = None \<or>
    map_of kvs ''forecast'' = None"
  shows "normalize_response (JObj kvs) = Inl (KeyError ''current'') \<or>
    normalize_response (JObj kvs) = Inl (KeyError ''location'') \<or>
    normalize_response (JObj kvs) = Inl (KeyError ''forecast'')"
proof (cases "map_of kvs ''current''")
  case None
  then show ?thesis by (simp add: normalize_response_def)
next
  case c: (Some current)
  show ?thesis
  proof (cases "map_of kvs ''location''")
    case None
    with c show ?thesis by (simp add: normalize_response_def)
  next
    case l: (Some location)
    with c assms have "map_of kvs ''forecast'' = None" by simp
    with c l show ?thesis by (simp add: normalize_response_def subscript2_def)
  qed
qed

text \<open>
  C3. \<open>get_weather\<close> returns \<^verbatim>\<open>None\<close> exactly when the transport answered with a
  dictionary whose \<^verbatim>\<open>error\<close> entry is true in the sense of \<^verbatim>\<open>if\<close>, as the provider's
  error object is; nothing else of the body is read then, so nothing is raised. A
  failure of the transport or of the decoding is passed on unchanged, and a body
  without such an entry that lacks \<^verbatim>\<open>current\<close>, \<^verbatim>\<open>location\<close> or \<^verbatim>\<open>forecast\<close>
  raises \<^verbatim>\<open>KeyError\<close>.
\<close>

theorem get_weather_not_found:
  "(get_weather e c = Inr None \<longleftrightarrow>
      (\<exists>r resp err. requests_get e (weather_url (API_KEY e) c) = Inr r \<and> body r = Inr resp \<and>
         dict_get resp ''error'' = Inr err \<and> truthy err)) \<and>
   (requests_get e (weather_url (API_KEY e) c) = Inl x \<longrightarrow> get_weather e c = Inl x) \<and>
   (requests_get e (weather_url (API_KEY e) c) = Inr r \<and> body r = Inl x \<longrightarrow>
      get_weather e c = Inl x) \<and>
   (requests_get e (weather_url (API_KEY e) c) = Inr r \<and> body r = Inr (JObj kvs) \<and>
    \<not> truthy (case map_of kvs ''error'' of None \<Rightarrow> JNull | Some v \<Rightarrow> v) \<and>
    (map_of kvs ''current'' = None \<or> map_of kvs ''location'' = None \<or>
     map_of kvs ''forecast'' = None) \<longrightarrow>
      get_weather e c = Inl (KeyError ''current'') \<or>
      get_weather e c = Inl (KeyError ''location'') \<or>
      get_weather e c = Inl (KeyError ''forecast''))"
proof (intro conjI impI)
  show "get_weather e c = Inr None \<longleftrightarrow>
      (\<exists>r resp err. requests_get e (weather_url (API_KEY e) c) = Inr r \<and> body r = Inr resp \<and>
         dict_get resp ''error'' = Inr err \<and> truthy err)"
    by (auto simp: get_weather_def and_then_eq_Inr split: if_splits)
next
  assume "requests_get e (weather_url (API_KEY e) c) = Inl x"
  then show "get_weather e c = Inl x" by (simp add: get_weather_def)
next
  assume "requests_get e (weather_url (API_KEY e) c) = Inr r \<and> body r = Inl x"
  then show "get_weather e c = Inl x" by (simp add: get_weather_def)
next
  assume a: "requests_get e (weather_url (API_KEY e) c) = Inr r \<and> body r = Inr (JObj kvs) \<and>
    \<not> truthy (case map_of kvs ''error'' of None \<Rightarrow> JNull | Some v \<Rightarrow> v) \<and>
    (map_of kvs ''current'' = None \<or> map_of kvs ''location'' = None \<or>
     map_of kvs ''forecast'' = None)"
  then have g: "get_weather e c = and_then (normalize_response (JObj kvs)) (\<lambda>data. Inr (Some data))"
    by (simp add: get_weather_def)
  from a have "map_of kvs ''current'' = None \<or> map_of kvs ''location'' = None \<or>
     map_of kvs ''forecast'' = None" by simp
  from normalize_response_missing_key [OF this] g
  show "get_weather e c = Inl (KeyError ''current'') \<or>
      get_weather e c = Inl (KeyError ''location'') \<or>
      get_weather e c = Inl (KeyError ''forecast'')"
    by auto
qed

lemmas fixture_defs2 = offline_env_def no_forecast_response_def null_error_response_def

theorem get_weather_not_found_witness:
  "get_weather (sample_env [(''Atlantis'', not_found_response)] (Date 2024 5 1)) ''Atlantis''
     = Inr None \<and>
   get_weather offline_env ''Kathmandu'' = Inl TransportError \<and>
   get_weather (sample_env [(''Kathmandu'', no_forecast_response)] (Date 2024 5 1)) ''Kathmandu''
     = Inl (KeyError ''forecast'')"
  using get_weather_not_found
    [of "sample_env [(''Atlantis'', not_found_response)] (Date 2024 5 1)" "''Atlantis''"]
  by (simp add: get_weather_def fixture_defs fixture_defs2 weather_url_def
      normalize_response_def subscript2_def)

text \<open>
  An \<^verbatim>\<open>error\<close> entry that is false in the sense of \<^verbatim>\<open>if\<close> (here \<^verbatim>\<open>null\<close>) is not
  taken for the provider's error object: the body is read on.
\<close>

lemma get_weather_false_error_entry:
  "get_weather (sample_env [(''Kathmandu'', null_error_response)] (Date 2024 5 1)) ''Kathmandu''
     = Inl (KeyError ''current'')"
  by (simp add: get_weather_def fixture_defs fixture_defs2 weather_url_def
      normalize_response_def)

subsection \<open>The forecast of a normalized response\<close>

lemma forecast_entry_date:
  "forecast_entry dy = Inr d \<Longrightarrow> and_then (subscript dy ''date'') strptime = Inr (date d)"
  by (rule forecast_entry_Inr(1))

text \<open>
  C4, in the form the code satisfies. A normalized response has one forecast entry for
  each day the provider sent, in the provider's order, the date of each entry being the
  parsed date of that day: seven entries in ascending order exactly when the provider
  sent seven days in ascending order. The forecast is never empty, and the sunrise and
  sunset of the snapshot are those of its first entry.
\<close>

theorem normalize_keeps_provider_days:
  "normalize_response resp = Inr w \<longrightarrow>
     (\<exists>days. and_then (subscript2 resp ''forecast'' ''forecastday'') py_iter = Inr days \<and>
        length (forecast w) = length days \<and>
        map_result (\<lambda>dy. and_then (subscript dy ''date'') strptime) days
          = Inr (map date (forecast w))) \<and>
     forecast w \<noteq> [] \<and>
     sunrise w = sunrise (hd (forecast w)) \<and>
     sunset w = sunset (hd (forecast w))"
proof
  assume n: "normalize_response resp = Inr w"
  from normalize_response_forecast [OF n] obtain days where
    d: "and_then (subscript2 resp ''forecast'' ''forecastday'') py_iter = Inr days" and
    m: "map_result forecast_entry days = Inr (forecast w)"
    by blast
  from map_result_Inr [OF m] have l: "length (forecast w) = length days"
    by (simp add: list_all2_lengthD)
  from m have p: "map_result (\<lambda>dy. and_then (subscript dy ''date'') strptime) days
      = Inr (map date (forecast w))"
    by (rule map_result_compose) (rule forecast_entry_date)
  from n have h: "forecast w \<noteq> [] \<and> sunrise w = sunrise (hd (forecast w)) \<and>
      sunset w = sunset (hd (forecast w))"
    by (elim normalize_response_Inr) simp
  from d l p h show "(\<exists>days. and_then (subscript2 resp ''forecast'' ''forecastday'') py_iter = Inr days \<and>
        length (forecast w) = length days \<and>
        map_result (\<lambda>dy. and_then (subscript dy ''date'') strptime) days
          = Inr (map date (forecast w))) \<and>
     forecast w \<noteq> [] \<and>
     sunrise w = sunrise (hd (forecast w)) \<and>
     sunset w = sunset (hd (forecast w))"
    by blast
qed

lemma forecast_entry_plain_day:
  "forecast_entry (plain_day dt) =
     and_then (strptime_ymd dt) (\<lambda>d.
     Inr \<lparr>weather = JStr ''Sunny'', wind_kph = JNum 12, humidity = JNum 60,
          sunrise = JStr ''05:20 AM'', sunset = JStr ''06:40 PM'', icon = ''http://c/113.png'',
          date = d, temp_day = JNum 30, temp_night = JNum 18,
          chance_of_rain = JNum 20, uv = JNum 5\<rparr>)"
  by (simp add: plain_day_def sample_day_def forecast_entry_def subscript2_def subscript3_def)

lemma strptime_may_2024:
  "strptime_ymd ''2024-05-01'' = Inr (Date 2024 5 1)"
  "strptime_ymd ''2024-05-02'' = Inr (Date 2024 5 2)"
  "strptime_ymd ''2024-05-03'' = Inr (Date 2024 5 3)"
  "strptime_ymd ''2024-05-04'' = Inr (Date 2024 5 4)"
  "strptime_ymd ''2024-05-05'' = Inr (Date 2024 5 5)"
  "strptime_ymd ''2024-05-06'' = Inr (Date 2024 5 6)"
  "strptime_ymd ''2024-05-07'' = Inr (Date 2024 5 7)"
  by (simp_all add: is_digit_def digit_val_def days_in_month_def is_leap_def)

lemma normalize_seven_days:
  "\<not> isl (normalize_response seven_days) \<and>
   map date (forecast (projr (normalize_response seven_days))) =
     [Date 2024 5 1, Date 2024 5 2, Date 2024 5 3, Date 2024 5 4, Date 2024 5 5,
      Date 2024 5 6, Date 2024 5 7] \<and>
   sunrise (projr (normalize_response seven_days)) = JStr ''05:20 AM'' \<and>
   sunset (projr (normalize_response seven_days)) = JStr ''06:40 PM''"
  by (simp add: seven_days_def sample_response_def normalize_response_def subscript2_def
      forecast_entry_plain_day strptime_may_2024 del: strptime_ymd.simps)

theorem normalize_keeps_provider_days_witness:
  "\<not> isl (normalize_response seven_days) \<and>
   length (forecast (projr (normalize_response seven_days))) = 7 \<and>
   sorted_wrt date_less (map date (forecast (projr (normalize_response seven_days)))) \<and>
   sunrise (projr (normalize_response seven_days)) =
     sunrise (hd (forecast (projr (normalize_response seven_days)))) \<and>
   sunset (projr (normalize_response seven_days)) =
     sunset (hd (forecast (projr (normalize_response seven_days))))"
proof -
  let ?w = "projr (normalize_response seven_days)"
  from normalize_seven_days have n: "normalize_response seven_days = Inr ?w"
    by (cases "normalize_response seven_days") simp_all
  from normalize_seven_days
  have d: "map date (forecast ?w) =
      [Date 2024 5 1, Date 2024 5 2, Date 2024 5 3, Date 2024 5 4, Date 2024 5 5,
       Date 2024 5 6, Date 2024 5 7]"
    by blast
  from arg_cong [OF d, of length] have l: "length (forecast ?w) = 7"
    by simp
  have s: "sorted_wrt date_less (map date (forecast ?w))"
    unfolding d by (simp add: date_less_def)
  from normalize_keeps_provider_days [of seven_days ?w] n
  have "sunrise ?w = sunrise (hd (forecast ?w)) \<and> sunset ?w = sunset (hd (forecast ?w))"
    by blast
  with normalize_seven_days l s show ?thesis
    by blast
qed

theorem three_day_response_counterexample:
  "\<not> isl (normalize_response three_days) \<and>
   length (forecast (projr (normalize_response three_days))) = 3"
  by (simp add: three_days_def sample_response_def normalize_response_def subscript2_def
      forecast_entry_plain_day strptime_may_2024 del: strptime_ymd.simps)

section \<open>The two tables\<close>

subsection \<open>What one round and the whole loop add\<close>

lemma concat_axis1_Inr:
  assumes "concat_axis1 a b = Inr f"
  shows "cols f = cols a @ cols b" and "set (idx f) = set (idx a) \<union> set (idx b)"
    and "distinct (idx f)" and "distinct (idx a)" and "distinct (idx b)"
  using assms by (auto simp: concat_axis1_def split: if_splits)

lemma aggregate_Inr:
  assumes "aggregate st w = Inr st'"
  obtains name where "city w = JStr name"
    "concat_axis1 (comparison_df st) (temp_df name (forecast w)) = Inr (comparison_df st')"
    "download_df st' = download_df st @ city_csv_df name (forecast w)"
    "page st' = page st" "fetched st' = fetched st"
  using assms by (auto simp: aggregate_def and_then_eq_Inr split: json.splits)

lemma aggregate_tables:
  assumes "aggregate st w = Inr st'"
  shows "cols (comparison_df st') = cols (comparison_df st) @ temp_cols w"
    and "download_df st' = download_df st @ export_rows w"
    and "\<exists>name. city w = JStr name"
    and "page st' = page st" and "fetched st' = fetched st"
  using assms
  by (auto elim!: aggregate_Inr simp: temp_cols_def export_rows_def dest: concat_axis1_Inr(1))

lemma process_city_error:
  "get_weather e c = Inl x \<Longrightarrow> process_city e st c = Inl x"
  by (simp add: process_city_def)

lemma process_city_not_found:
  "get_weather e c = Inr None \<Longrightarrow>
   process_city e st c =
     Inr (st\<lparr>fetched := fetched st @ [weather_url (API_KEY e) c],
             page := page st @ [NotFoundError c]\<rparr>)"
  by (simp add: process_city_def)

lemma process_city_found:
  "get_weather e c = Inr (Some w) \<Longrightarrow>
   process_city e st c =
     and_then (current_view e w) (\<lambda>v1.
     and_then (case forecast_for_date w (date_input e (city w)) of
                 None \<Rightarrow> Inr []
               | Some d \<Rightarrow> forecast_view e (date_input e (city w)) d) (\<lambda>v2.
     and_then (aggregate (st\<lparr>fetched := fetched st @ [weather_url (API_KEY e) c]\<rparr>) w) (\<lambda>st2.
     Inr (st2\<lparr>page := page st2 @ v1 @ [DateInput (city w)] @ v2 @ [OverlayClose]\<rparr>))))"
  by (simp add: process_city_def Let_def)

lemma process_city_found_tables:
  assumes "get_weather e c = Inr (Some w)" and "process_city e st c = Inr st'"
  shows "cols (comparison_df st') = cols (comparison_df st) @ temp_cols w"
    and "download_df st' = download_df st @ export_rows w"
    and "\<exists>name. city w = JStr name"
    and "fetched st' = fetched st @ [weather_url (API_KEY e) c]"
proof -
  from assms obtain v1 v2 st2 where
    a: "aggregate (st\<lparr>fetched := fetched st @ [weather_url (API_KEY e) c]\<rparr>) w = Inr st2" and
    s: "st' = st2\<lparr>page := page st2 @ v1 @ [DateInput (city w)] @ v2 @ [OverlayClose]\<rparr>"
    by (auto simp: process_city_found and_then_eq_Inr)
  from aggregate_tables [OF a] s
  show "cols (comparison_df st') = cols (comparison_df st) @ temp_cols w"
    and "download_df st' = download_df st @ export_rows w"
    and "\<exists>name. city w = JStr name"
    and "fetched st' = fetched st @ [weather_url (API_KEY e) c]"
    by simp_all
qed

lemma found_Cons:
  "found e (c # cs) = (case get_weather e c of Inr (Some w) \<Rightarrow> [w] | _ \<Rightarrow> []) @ found e cs"
  by (simp add: found_def)

lemma city_loop_tables:
  "city_loop e st cs = Inr st' \<Longrightarrow>
   cols (comparison_df st') = cols (comparison_df st) @ concat (map temp_cols (found e cs)) \<and>
   download_df st' = download_df st @ concat (map export_rows (found e cs)) \<and>
   fetched st' = fetched st @ map (weather_url (API_KEY e)) cs \<and>
   (\<forall>w \<in> set (found e cs). \<exists>name. city w = JStr name)"
proof (induction cs arbitrary: st)
  case Nil
  then show ?case by (simp add: found_def)
next
  case (Cons c cs)
  from Cons.prems obtain st1 where
    p: "process_city e st c = Inr st1" and l: "city_loop e st1 cs = Inr st'"
    by (auto simp: and_then_eq_Inr)
  note ih = Cons.IH [OF l]
  show ?case
  proof (cases "get_weather e c")
    case (Inl x)
    with p show ?thesis by (simp add: process_city_error)
  next
    case (Inr r)
    show ?thesis
    proof (cases r)
      case None
      with Inr p have "st1 = st\<lparr>fetched := fetched st @ [weather_url (API_KEY e) c],
          page := page st @ [NotFoundError c]\<rparr>"
        by (simp add: process_city_not_found)
      with ih Inr None show ?thesis by (simp add: found_Cons)
    next
      case (Some w)
      with Inr have g: "get_weather e c = Inr (Some w)" by simp
      from process_city_found_tables [OF g p] ih g show ?thesis
        by (simp add: found_Cons)
    qed
  qed
qed

lemma run_Inr:
  assumes "run e inp = Inr st"
  obtains st0 where "city_loop e (initial e) (cities inp) = Inr st0" "st = render_tables st0"
  using assms by (auto simp: run_def and_then_eq_Inr)

lemma render_tables_fields [simp]:
  "comparison_df (render_tables st) = comparison_df st"
  "download_df (render_tables st) = download_df st"
  "fetched (render_tables st) = fetched st"
  by (simp_all add: render_tables_def)

lemma run_tables:
  assumes "run e inp = Inr st"
  shows "cols (comparison_df st) = concat (map temp_cols (found e (cities inp)))"
    and "download_df st = concat (map export_rows (found e (cities inp)))"
    and "fetched st = map (weather_url (API_KEY e)) (cities inp)"
    and "\<forall>w \<in> set (found e (cities inp)). \<exists>name. city w = JStr name"
  using assms
  by (auto elim!: run_Inr dest!: city_loop_tables simp: initial_def empty_frame_def)

lemma length_export_rows:
  "city w = JStr name \<Longrightarrow> length (export_rows w) = length (forecast w)"
  by (simp add: export_rows_def city_csv_df_def)

lemma length_concat_export_rows:
  "\<forall>w \<in> set ws. \<exists>name. city w = JStr name \<Longrightarrow>
   length (concat (map export_rows ws)) = sum_list (map (\<lambda>w. length (forecast w)) ws)"
  by (induction ws) (auto simp: length_export_rows)

lemma sum_list_const7:
  "\<forall>w \<in> set ws. length (forecast w) = 7 \<Longrightarrow>
   sum_list (map (\<lambda>w. length (forecast w)) ws) = 7 * length ws"
  by (induction ws) auto

section \<open>Running the model on the sample data\<close>

text \<open>
  The sample transport answers a forecast request from its table and everything else
  with status 404, so no animation is ever loaded and every round of the loop over
  well-formed sample data returns.
\<close>

lemma weather_url_inj: "weather_url k c = weather_url k c' \<longleftrightarrow> c = c'"
  by (simp add: weather_url_def)

lemma weather_url_prefix: "prefix ''http:'' (weather_url k c)"
  by (simp add: weather_url_def)

lemma map_of_weather_url:
  "map_of (map (\<lambda>cj. (weather_url k (fst cj), snd cj)) table) (weather_url k c) = map_of table c"
  by (induction table) (auto simp: weather_url_inj)

lemma map_of_other_url:
  "\<not> prefix ''http:'' url \<Longrightarrow>
   map_of (map (\<lambda>cj. (weather_url k (fst cj), snd cj)) table) url = None"
proof (induction table)
  case Nil
  then show ?case by simp
next
  case (Cons cj table)
  from Cons.prems weather_url_prefix [of k "fst cj"] have "weather_url k (fst cj) \<noteq> url"
    by auto
  with Cons show ?case by simp
qed

lemma sample_env_fields [simp]:
  "API_KEY (sample_env table p) = Some ''k''"
  "date_input (sample_env table p) l = p"
  "screen_width (sample_env table p) = 800"
  "screen_height (sample_env table p) = 800"
  by (simp_all add: sample_env_def)

lemma requests_get_sample_city:
  "requests_get (sample_env table p) (weather_url (Some ''k'') c) =
     (case map_of table c of
        Some j \<Rightarrow> Inr \<lparr>status_code = 200, body = Inr j\<rparr>
      | None \<Rightarrow> Inr \<lparr>status_code = 404, body = Inl JSONDecodeError\<rparr>)"
  by (simp add: sample_env_def map_of_weather_url)

lemma requests_get_sample_other:
  "\<not> prefix ''http:'' url \<Longrightarrow>
   requests_get (sample_env table p) url = Inr \<lparr>status_code = 404, body = Inl JSONDecodeError\<rparr>"
  by (simp add: sample_env_def map_of_other_url)

lemma get_weather_sample:
  "get_weather (sample_env table p) c =
     (case map_of table c of
        Some j \<Rightarrow>
          and_then (dict_get j ''error'') (\<lambda>err.
          if truthy err then Inr None
          else and_then (normalize_response j) (\<lambda>data. Inr (Some data)))
      | None \<Rightarrow> Inl JSONDecodeError)"
  by (simp add: get_weather_def requests_get_sample_city split: option.splits)

lemma get_weather_sample_not_found:
  "map_of table c = Some not_found_response \<Longrightarrow> get_weather (sample_env table p) c = Inr None"
  by (simp add: get_weather_sample not_found_response_def)

lemma forecast_entry_plain_day':
  "forecast_entry (plain_day dt) = and_then (strptime_ymd dt) (\<lambda>d. Inr (entry_of d))"
  by (simp add: forecast_entry_plain_day entry_of_def)

lemma map_result_plain_days:
  "map_result strptime_ymd dts = Inr ds \<Longrightarrow>
   map_result forecast_entry (map plain_day dts) = Inr (map entry_of ds)"
proof (induction dts arbitrary: ds)
  case Nil
  then show ?case by auto
next
  case (Cons dt dts)
  from Cons.prems obtain d ds' where "strptime_ymd dt = Inr d" "map_result strptime_ymd dts = Inr ds'"
    "ds = d # ds'"
    by (auto simp: and_then_eq_Inr)
  with Cons.IH [of ds'] show ?case
    by (simp add: forecast_entry_plain_day' del: strptime_ymd.simps)
qed

lemma normalize_city_response:
  assumes "map_result strptime_ymd dts = Inr ds" and "ds \<noteq> []"
  shows "normalize_response (city_response name dts) = Inr (weather_of name ds)"
proof -
  from assms(2) obtain d ds' where "ds = d # ds'" by (cases ds) auto
  with map_result_plain_days [OF assms(1)] show ?thesis
    by (simp add: city_response_def sample_response_def normalize_response_def subscript2_def
        weather_of_def entry_of_def)
qed

lemma get_weather_sample_city:
  assumes "map_of table c = Some (city_response name dts)"
    and "map_result strptime_ymd dts = Inr ds" and "ds \<noteq> []"
  shows "get_weather (sample_env table p) c = Inr (Some (weather_of name ds))"
  using assms(1) normalize_city_response [OF assms(2,3), of name]
  by (simp add: get_weather_sample) (simp add: city_response_def sample_response_def)

lemma load_lottie_sample:
  "\<not> prefix ''http:'' url \<Longrightarrow> load_lottie (sample_env table p) url = Inr JNull"
  by (simp add: load_lottie_def requests_get_sample_other)

lemma get_lottie_for_condition_sample:
  "get_lottie_for_condition (sample_env table p) (JStr c) = Inr JNull"
proof (cases "find (\<lambda>kv. is_in (lower (fst kv)) (lower c)) WEATHER_LOTTIE")
  case None
  then show ?thesis by (simp add: get_lottie_for_condition_def)
next
  case (Some kv)
  then have "kv \<in> set WEATHER_LOTTIE" by (auto simp: find_Some_iff)
  then have "\<not> prefix ''http:'' (snd kv)" by (auto simp: WEATHER_LOTTIE_def)
  with Some show ?thesis by (simp add: get_lottie_for_condition_def load_lottie_sample)
qed

lemma set_full_bg_animation_sample:
  "set_full_bg_animation (sample_env table p) (JStr c) = Inr []"
  by (simp add: set_full_bg_animation_def load_lottie_sample Let_def)

lemma current_view_sample:
  "\<exists>v. current_view (sample_env table p) (weather_of name ds) = Inr v \<and>
       (\<forall>a. AlertBanner a \<notin> set v) \<and> (\<forall>d. ForecastHeading d \<notin> set v)"
  by (simp add: current_view_def weather_of_def set_full_bg_animation_sample
      get_lottie_for_condition_sample)

lemma forecast_view_sample:
  "\<exists>v. forecast_view (sample_env table p) sel (entry_of d) = Inr v"
  by (simp add: forecast_view_def entry_of_def get_lottie_for_condition_sample extreme_alerts_def)

lemma selected_view_sample:
  "\<exists>v. (case forecast_for_date (weather_of name ds) sel of
          None \<Rightarrow> Inr []
        | Some d \<Rightarrow> forecast_view (sample_env table p) sel d) = Inr v"
proof (cases "forecast_for_date (weather_of name ds) sel")
  case None
  then show ?thesis by simp
next
  case (Some d)
  then have "d \<in> set (map entry_of ds)"
    by (auto simp: forecast_for_date_def weather_of_def find_Some_iff)
  then obtain d' where "d = entry_of d'" by auto
  with Some forecast_view_sample [of table p sel d'] show ?thesis by simp
qed

lemma distinct_map_date_entry_of: "map date (map entry_of ds) = ds"
  by (induction ds) (simp_all add: entry_of_def)

lemma aggregate_sample:
  assumes "distinct (idx (comparison_df st))" and "distinct ds"
  shows "\<exists>st'. aggregate st (weather_of name ds) = Inr st' \<and> distinct (idx (comparison_df st'))"
  using assms
  by (auto simp: aggregate_def weather_of_def concat_axis1_def temp_df_def
      distinct_map_date_entry_of [simplified])

lemma process_city_sample:
  assumes "map_of table c = Some j" and "well_formed_entry j"
    and "distinct (idx (comparison_df st))"
  shows "\<exists>st'. process_city (sample_env table p) st c = Inr st' \<and>
           distinct (idx (comparison_df st'))"
proof (cases "j = not_found_response")
  case True
  with assms(1) have "get_weather (sample_env table p) c = Inr None"
    by (simp add: get_weather_sample_not_found)
  with assms(3) show ?thesis by (simp add: process_city_not_found)
next
  case False
  with assms(2) obtain name dts ds where j: "j = city_response name dts" and
    d: "map_result strptime_ymd dts = Inr ds" "ds \<noteq> []" "distinct ds"
    by (auto simp: well_formed_entry_def)
  from assms(1) j d have g: "get_weather (sample_env table p) c = Inr (Some (weather_of name ds))"
    by (simp add: get_weather_sample_city)
  from current_view_sample [of table p name ds] obtain v1 where
    v1: "current_view (sample_env table p) (weather_of name ds) = Inr v1" by blast
  from selected_view_sample [where name = name and ds = ds and sel = p and table = table and p = p] obtain v2 where
    v2: "(case forecast_for_date (weather_of name ds) p of
            None \<Rightarrow> Inr []
          | Some d \<Rightarrow> forecast_view (sample_env table p) p d) = Inr v2" by blast
  from assms(3) d(3)
    aggregate_sample [of "st\<lparr>fetched := fetched st @ [weather_url (Some ''k'') c]\<rparr>" ds name]
  obtain st2 where
    a: "aggregate (st\<lparr>fetched := fetched st @ [weather_url (Some ''k'') c]\<rparr>) (weather_of name ds)
          = Inr st2" and i: "distinct (idx (comparison_df st2))"
    by auto
  have c: "city (weather_of name ds) = JStr name" by (simp add: weather_of_def)
  from v1 v2 a i show ?thesis
    by (simp add: process_city_found [OF g] c cong: option.case_cong)
qed

lemma city_loop_sample:
  assumes "\<forall>c \<in> set cs. \<exists>j. map_of table c = Some j \<and> well_formed_entry j"
    and "distinct (idx (comparison_df st))"
  shows "\<exists>st'. city_loop (sample_env table p) st cs = Inr st'"
  using assms
proof (induction cs arbitrary: st)
  case Nil
  then show ?case by simp
next
  case (Cons c cs)
  from Cons.prems(1) obtain j where "map_of table c = Some j" "well_formed_entry j" by auto
  from process_city_sample [OF this Cons.prems(2), of p] obtain st1 where
    p: "process_city (sample_env table p) st c = Inr st1" and
    i: "distinct (idx (comparison_df st1))" by blast
  from Cons.prems(1) have "\<forall>c \<in> set cs. \<exists>j. map_of table c = Some j \<and> well_formed_entry j"
    by simp
  from Cons.IH [OF this i] p show ?case by simp
qed

lemma run_sample:
  assumes "\<forall>c \<in> set (cities inp). \<exists>j. map_of table c = Some j \<and> well_formed_entry j"
  shows "\<not> isl (run (sample_env table p) inp)"
proof -
  have "distinct (idx (comparison_df (initial (sample_env table p))))"
    by (simp add: initial_def empty_frame_def)
  from city_loop_sample [OF assms this, where p = p] show ?thesis
    by (auto simp: run_def)
qed

lemma well_formed_not_found: "well_formed_entry not_found_response"
  by (simp add: well_formed_entry_def)

lemma well_formed_city:
  "map_result strptime_ymd dts = Inr ds \<Longrightarrow> ds \<noteq> [] \<Longrightarrow> distinct ds \<Longrightarrow>
   well_formed_entry (city_response name dts)"
  by (auto simp: well_formed_entry_def)

lemma strptime_may_week: "map_result strptime_ymd may_week = Inr may_dates"
  by (simp add: may_week_def may_dates_def strptime_may_2024 del: strptime_ymd.simps)

lemma strptime_may_three:
  "map_result strptime_ymd (take 3 may_week) = Inr (take 3 may_dates)"
  by (simp add: may_week_def may_dates_def strptime_may_2024 del: strptime_ymd.simps)

lemma may_dates_facts:
  "may_dates \<noteq> []" "distinct may_dates" "length may_dates = 7"
  "take 3 may_dates \<noteq> []" "distinct (take 3 may_dates)" "length (take 3 may_dates) = 3"
  by (simp_all add: may_dates_def)

lemma cities_three: "cities ''Kathmandu, Atlantis ,Lalitpur'' = [''Kathmandu'', ''Atlantis'', ''Lalitpur'']"
  by (simp add: cities_def split_comma_def strip_def is_space_def)

subsection \<open>The export table\<close>

text \<open>
  C5, in the form the code satisfies. After a pass that completes, the export table
  holds, for each city that was found and in the order of the input, that city's
  forecast rows in forecast order, each tagged with the name the provider gave the city;
  cities that were not found add nothing. Its row count is therefore the sum of the
  lengths of the forecasts of the cities found, which is seven times their number when
  each forecast has seven entries.
\<close>

theorem export_rows_accumulate:
  "run e inp = Inr st \<longrightarrow>
     download_df st = concat (map export_rows (found e (cities inp))) \<and>
     (\<forall>w \<in> set (found e (cities inp)). \<exists>name. city w = JStr name \<and>
        export_rows w = map (\<lambda>d. (d, name)) (forecast w)) \<and>
     length (download_df st) = sum_list (map (\<lambda>w. length (forecast w)) (found e (cities inp))) \<and>
     ((\<forall>w \<in> set (found e (cities inp)). length (forecast w) = 7) \<longrightarrow>
        length (download_df st) = 7 * length (found e (cities inp)))"
proof
  assume r: "run e inp = Inr st"
  note t = run_tables [OF r]
  from t(4) have n: "\<forall>w \<in> set (found e (cities inp)). \<exists>name. city w = JStr name \<and>
        export_rows w = map (\<lambda>d. (d, name)) (forecast w)"
    by (auto simp: export_rows_def city_csv_df_def)
  from t(2) length_concat_export_rows [OF t(4)]
  have l: "length (download_df st) = sum_list (map (\<lambda>w. length (forecast w)) (found e (cities inp)))"
    by simp
  from l sum_list_const7 [of "found e (cities inp)"]
  have s: "(\<forall>w \<in> set (found e (cities inp)). length (forecast w) = 7) \<longrightarrow>
        length (download_df st) = 7 * length (found e (cities inp))"
    by simp
  from t(2) n l s show "download_df st = concat (map export_rows (found e (cities inp))) \<and>
     (\<forall>w \<in> set (found e (cities inp)). \<exists>name. city w = JStr name \<and>
        export_rows w = map (\<lambda>d. (d, name)) (forecast w)) \<and>
     length (download_df st) = sum_list (map (\<lambda>w. length (forecast w)) (found e (cities inp))) \<and>
     ((\<forall>w \<in> set (found e (cities inp)). length (forecast w) = 7) \<longrightarrow>
        length (download_df st) = 7 * length (found e (cities inp)))"
    by blast
qed

lemma found_two_cities:
  "found (sample_env two_cities_table p) [''Kathmandu'', ''Atlantis'', ''Lalitpur''] =
     [weather_of ''Kathmandu'' may_dates, weather_of ''Lalitpur'' may_dates]"
  by (simp add: found_def two_cities_table_def get_weather_sample_not_found
      get_weather_sample_city [OF _ strptime_may_week may_dates_facts(1)])

lemma run_two_cities:
  "\<not> isl (run (sample_env two_cities_table p) ''Kathmandu, Atlantis ,Lalitpur'')"
  by (rule run_sample)
    (simp add: cities_three two_cities_table_def well_formed_not_found
      well_formed_city [OF strptime_may_week may_dates_facts(1,2)])

theorem export_rows_accumulate_witness:
  "\<not> isl (run (sample_env two_cities_table (Date 2024 5 2)) ''Kathmandu, Atlantis ,Lalitpur'') \<and>
   length (download_df (projr (run (sample_env two_cities_table (Date 2024 5 2))
      ''Kathmandu, Atlantis ,Lalitpur''))) = 14 \<and>
   map snd (download_df (projr (run (sample_env two_cities_table (Date 2024 5 2))
      ''Kathmandu, Atlantis ,Lalitpur''))) =
     [''Kathmandu'', ''Kathmandu'', ''Kathmandu'', ''Kathmandu'', ''Kathmandu'', ''Kathmandu'',
      ''Kathmandu'', ''Lalitpur'', ''Lalitpur'', ''Lalitpur'', ''Lalitpur'', ''Lalitpur'',
      ''Lalitpur'', ''Lalitpur'']"
proof -
  let ?e = "sample_env two_cities_table (Date 2024 5 2)"
  let ?r = "run ?e ''Kathmandu, Atlantis ,Lalitpur''"
  have ok: "\<not> isl ?r" by (rule run_two_cities)
  then have r: "?r = Inr (projr ?r)" by (cases ?r) simp_all
  have f: "found ?e (cities ''Kathmandu, Atlantis ,Lalitpur'') =
      [weather_of ''Kathmandu'' may_dates, weather_of ''Lalitpur'' may_dates]"
    by (simp add: cities_three found_two_cities)
  from export_rows_accumulate [of ?e "''Kathmandu, Atlantis ,Lalitpur''" "projr ?r"] r
  have d: "download_df (projr ?r) = concat (map export_rows (found ?e (cities ''Kathmandu, Atlantis ,Lalitpur'')))"
    and l: "(\<forall>w \<in> set (found ?e (cities ''Kathmandu, Atlantis ,Lalitpur'')). length (forecast w) = 7) \<longrightarrow>
        length (download_df (projr ?r)) = 7 * length (found ?e (cities ''Kathmandu, Atlantis ,Lalitpur''))"
    by blast+
  from l have "length (download_df (projr ?r)) = 14"
    by (simp add: f weather_of_def may_dates_facts)
  moreover from d have "map snd (download_df (projr ?r)) =
     [''Kathmandu'', ''Kathmandu'', ''Kathmandu'', ''Kathmandu'', ''Kathmandu'', ''Kathmandu'',
      ''Kathmandu'', ''Lalitpur'', ''Lalitpur'', ''Lalitpur'', ''Lalitpur'', ''Lalitpur'',
      ''Lalitpur'', ''Lalitpur'']"
    by (simp add: f export_rows_def city_csv_df_def weather_of_def may_dates_def o_def)
  ultimately show ?thesis using ok by blast
qed

theorem three_day_export_counterexample:
  "\<not> isl (run (sample_env three_day_table (Date 2024 5 2)) ''Kathmandu'') \<and>
   length (found (sample_env three_day_table (Date 2024 5 2)) (cities ''Kathmandu'')) = 1 \<and>
   length (download_df (projr (run (sample_env three_day_table (Date 2024 5 2)) ''Kathmandu''))) = 3"
proof -
  let ?e = "sample_env three_day_table (Date 2024 5 2)"
  let ?r = "run ?e ''Kathmandu''"
  have c: "cities ''Kathmandu'' = [''Kathmandu'']"
    by (simp add: cities_def split_comma_def strip_def is_space_def)
  have ok: "\<not> isl ?r"
    by (rule run_sample)
      (simp add: c three_day_table_def
        well_formed_city [OF strptime_may_three may_dates_facts(4,5)])
  then have r: "?r = Inr (projr ?r)" by (cases ?r) simp_all
  have f: "found ?e (cities ''Kathmandu'') = [weather_of ''Kathmandu'' (take 3 may_dates)]"
    by (simp add: c found_def three_day_table_def
        get_weather_sample_city [OF _ strptime_may_three may_dates_facts(4)])
  from run_tables(2) [OF r] have "length (download_df (projr ?r)) = 3"
    by (simp add: f export_rows_def city_csv_df_def weather_of_def may_dates_def)
  with ok f show ?thesis by simp
qed

subsection \<open>The comparison table\<close>

lemma aggregate_distinct:
  assumes "city w = JStr name" and "distinct (idx (comparison_df st))"
    and "distinct (map date (forecast w))"
  shows "aggregate st w =
     Inr (st\<lparr>comparison_df :=
               \<lparr>idx = idx (comparison_df st) @
                       filter (\<lambda>d. d \<notin> set (idx (comparison_df st))) (map date (forecast w)),
                cols = cols (comparison_df st) @
                       [(name @ ''_day'', map (\<lambda>d. (date d, temp_day d)) (forecast w)),
                        (name @ ''_night'', map (\<lambda>d. (date d, temp_night d)) (forecast w))]\<rparr>,
             download_df := download_df st @ city_csv_df name (forecast w)\<rparr>)"
  using assms by (simp add: aggregate_def concat_axis1_def temp_df_def)

lemma map_of_date_cells:
  "distinct (map date fc) \<Longrightarrow> d \<in> set fc \<Longrightarrow> map_of (map (\<lambda>d. (date d, f d)) fc) (date d) = Some (f d)"
  by (induction fc) (auto simp: image_iff)

lemma map_of_date_gap:
  "x \<notin> date ` set fc \<Longrightarrow> map_of (map (\<lambda>d. (date d, f d)) fc) x = None"
  by (induction fc) auto

text \<open>
  C6. Merging a city whose forecast dates are distinct adds the two columns
  \<^verbatim>\<open>{city}_day\<close> and \<^verbatim>\<open>{city}_night\<close>, and the rows become the union of the dates
  (an outer join). Starting from the empty table, after two cities the table has the
  four columns in order; every cell of a city at one of its own dates holds that day's
  temperature, and every cell of a city at a date it lacks is a gap, with no error. When
  the two cities have the same seven dates the table has 4 columns and 7 rows; when
  their dates are disjoint it has one row for each date of either.
\<close>

theorem comparison_outer_join:
  "(city w = JStr n \<and> distinct (idx (comparison_df st0)) \<and>
    distinct (map date (forecast w)) \<longrightarrow>
      (\<exists>s. aggregate st0 w = Inr s \<and>
         cols (comparison_df s) =
           cols (comparison_df st0) @
           [(n @ ''_day'', map (\<lambda>d. (date d, temp_day d)) (forecast w)),
            (n @ ''_night'', map (\<lambda>d. (date d, temp_night d)) (forecast w))] \<and>
         set (idx (comparison_df s)) = set (idx (comparison_df st0)) \<union> date ` set (forecast w))) \<and>
   (city w1 = JStr n1 \<and> city w2 = JStr n2 \<and>
   distinct (map date (forecast w1)) \<and> distinct (map date (forecast w2)) \<and>
   comparison_df st = empty_frame \<longrightarrow>
     (\<exists>s1 s2. aggregate st w1 = Inr s1 \<and> aggregate s1 w2 = Inr s2 \<and>
        map fst (cols (comparison_df s1)) = [n1 @ ''_day'', n1 @ ''_night''] \<and>
        map fst (cols (comparison_df s2)) =
          [n1 @ ''_day'', n1 @ ''_night'', n2 @ ''_day'', n2 @ ''_night''] \<and>
        set (idx (comparison_df s2)) = date ` set (forecast w1) \<union> date ` set (forecast w2) \<and>
        distinct (idx (comparison_df s2)) \<and>
        (\<forall>d \<in> set (forecast w1).
           cell (comparison_df s2) 0 (date d) = Some (temp_day d) \<and>
           cell (comparison_df s2) 1 (date d) = Some (temp_night d)) \<and>
        (\<forall>d \<in> set (forecast w2).
           cell (comparison_df s2) 2 (date d) = Some (temp_day d) \<and>
           cell (comparison_df s2) 3 (date d) = Some (temp_night d)) \<and>
        (\<forall>x. x \<notin> date ` set (forecast w1) \<longrightarrow>
           cell (comparison_df s2) 0 x = None \<and> cell (comparison_df s2) 1 x = None) \<and>
        (\<forall>x. x \<notin> date ` set (forecast w2) \<longrightarrow>
           cell (comparison_df s2) 2 x = None \<and> cell (comparison_df s2) 3 x = None) \<and>
        (date ` set (forecast w1) = date ` set (forecast w2) \<and> length (forecast w1) = 7 \<longrightarrow>
           length (cols (comparison_df s2)) = 4 \<and> length (idx (comparison_df s2)) = 7) \<and>
        (date ` set (forecast w1) \<inter> date ` set (forecast w2) = {} \<longrightarrow>
           length (idx (comparison_df s2)) = length (forecast w1) + length (forecast w2))))"
proof (rule conjI)
  show "city w = JStr n \<and> distinct (idx (comparison_df st0)) \<and>
    distinct (map date (forecast w)) \<longrightarrow>
      (\<exists>s. aggregate st0 w = Inr s \<and>
         cols (comparison_df s) =
           cols (comparison_df st0) @
           [(n @ ''_day'', map (\<lambda>d. (date d, temp_day d)) (forecast w)),
            (n @ ''_night'', map (\<lambda>d. (date d, temp_night d)) (forecast w))] \<and>
         set (idx (comparison_df s)) = set (idx (comparison_df st0)) \<union> date ` set (forecast w))"
    by (auto simp: aggregate_distinct)
next
  show "city w1 = JStr n1 \<and> city w2 = JStr n2 \<and>
   distinct (map date (forecast w1)) \<and> distinct (map date (forecast w2)) \<and>
   comparison_df st = empty_frame \<longrightarrow>
     (\<exists>s1 s2. aggregate st w1 = Inr s1 \<and> aggregate s1 w2 = Inr s2 \<and>
        map fst (cols (comparison_df s1)) = [n1 @ ''_day'', n1 @ ''_night''] \<and>
        map fst (cols (comparison_df s2)) =
          [n1 @ ''_day'', n1 @ ''_night'', n2 @ ''_day'', n2 @ ''_night''] \<and>
        set (idx (comparison_df s2)) = date ` set (forecast w1) \<union> date ` set (forecast w2) \<and>
        distinct (idx (comparison_df s2)) \<and>
        (\<forall>d \<in> set (forecast w1).
           cell (comparison_df s2) 0 (date d) = Some (temp_day d) \<and>
           cell (comparison_df s2) 1 (date d) = Some (temp_night d)) \<and>
        (\<forall>d \<in> set (forecast w2).
           cell (comparison_df s2) 2 (date d) = Some (temp_day d) \<and>
           cell (comparison_df s2) 3 (date d) = Some (temp_night d)) \<and>
        (\<forall>x. x \<notin> date ` set (forecast w1) \<longrightarrow>
           cell (comparison_df s2) 0 x = None \<and> cell (comparison_df s2) 1 x = None) \<and>
        (\<forall>x. x \<notin> date ` set (forecast w2) \<longrightarrow>
           cell (comparison_df s2) 2 x = None \<and> cell (comparison_df s2) 3 x = None) \<and>
        (date ` set (forecast w1) = date ` set (forecast w2) \<and> length (forecast w1) = 7 \<longrightarrow>
           length (cols (comparison_df s2)) = 4 \<and> length (idx (comparison_df s2)) = 7) \<and>
        (date ` set (forecast w1) \<inter> date ` set (forecast w2) = {} \<longrightarrow>
           length (idx (comparison_df s2)) = length (forecast w1) + length (forecast w2)))"
  proof
  assume a: "city w1 = JStr n1 \<and> city w2 = JStr n2 \<and>
   distinct (map date (forecast w1)) \<and> distinct (map date (forecast w2)) \<and>
   comparison_df st = empty_frame"
  define s1 where "s1 = st\<lparr>comparison_df :=
       \<lparr>idx = map date (forecast w1),
        cols = [(n1 @ ''_day'', map (\<lambda>d. (date d, temp_day d)) (forecast w1)),
                (n1 @ ''_night'', map (\<lambda>d. (date d, temp_night d)) (forecast w1))]\<rparr>,
     download_df := download_df st @ city_csv_df n1 (forecast w1)\<rparr>"
  define s2 where "s2 = s1\<lparr>comparison_df :=
       \<lparr>idx = map date (forecast w1) @
               filter (\<lambda>d. d \<notin> date ` set (forecast w1)) (map date (forecast w2)),
        cols = [(n1 @ ''_day'', map (\<lambda>d. (date d, temp_day d)) (forecast w1)),
                (n1 @ ''_night'', map (\<lambda>d. (date d, temp_night d)) (forecast w1)),
                (n2 @ ''_day'', map (\<lambda>d. (date d, temp_day d)) (forecast w2)),
                (n2 @ ''_night'', map (\<lambda>d. (date d, temp_night d)) (forecast w2))]\<rparr>,
     download_df := download_df s1 @ city_csv_df n2 (forecast w2)\<rparr>"
  from a have g1: "aggregate st w1 = Inr s1"
    by (simp add: aggregate_distinct [of w1 n1] s1_def empty_frame_def)
  from a have g2: "aggregate s1 w2 = Inr s2"
    by (simp add: aggregate_distinct [of w2 n2] s1_def s2_def)
  have c1: "map fst (cols (comparison_df s1)) = [n1 @ ''_day'', n1 @ ''_night'']"
    by (simp add: s1_def)
  have c2: "map fst (cols (comparison_df s2)) =
      [n1 @ ''_day'', n1 @ ''_night'', n2 @ ''_day'', n2 @ ''_night'']"
    by (simp add: s2_def)
  have i: "set (idx (comparison_df s2)) = date ` set (forecast w1) \<union> date ` set (forecast w2)"
    by (auto simp: s2_def)
  from a have di: "distinct (idx (comparison_df s2))"
    by (auto simp: s2_def)
  from a have p1: "\<forall>d \<in> set (forecast w1).
           cell (comparison_df s2) 0 (date d) = Some (temp_day d) \<and>
           cell (comparison_df s2) 1 (date d) = Some (temp_night d)"
    by (simp add: s2_def cell_def map_of_date_cells)
  from a have p2: "\<forall>d \<in> set (forecast w2).
           cell (comparison_df s2) 2 (date d) = Some (temp_day d) \<and>
           cell (comparison_df s2) 3 (date d) = Some (temp_night d)"
    by (simp add: s2_def cell_def map_of_date_cells)
  have q1: "\<forall>x. x \<notin> date ` set (forecast w1) \<longrightarrow>
           cell (comparison_df s2) 0 x = None \<and> cell (comparison_df s2) 1 x = None"
    by (simp add: s2_def cell_def map_of_date_gap)
  have q2: "\<forall>x. x \<notin> date ` set (forecast w2) \<longrightarrow>
           cell (comparison_df s2) 2 x = None \<and> cell (comparison_df s2) 3 x = None"
    by (simp add: s2_def cell_def map_of_date_gap)
  have e: "date ` set (forecast w1) = date ` set (forecast w2) \<and> length (forecast w1) = 7 \<longrightarrow>
           length (cols (comparison_df s2)) = 4 \<and> length (idx (comparison_df s2)) = 7"
  proof
    assume h: "date ` set (forecast w1) = date ` set (forecast w2) \<and> length (forecast w1) = 7"
    then have "filter (\<lambda>d. d \<notin> date ` set (forecast w1)) (map date (forecast w2)) = []"
      by (auto simp: filter_empty_conv)
    with h show "length (cols (comparison_df s2)) = 4 \<and> length (idx (comparison_df s2)) = 7"
      by (simp add: s2_def)
  qed
  have j: "date ` set (forecast w1) \<inter> date ` set (forecast w2) = {} \<longrightarrow>
           length (idx (comparison_df s2)) = length (forecast w1) + length (forecast w2)"
  proof
    assume h: "date ` set (forecast w1) \<inter> date ` set (forecast w2) = {}"
    then have "filter (\<lambda>d. d \<notin> date ` set (forecast w1)) (map date (forecast w2)) =
        map date (forecast w2)"
      by (auto simp: filter_id_conv)
    then show "length (idx (comparison_df s2)) = length (forecast w1) + length (forecast w2)"
      by (simp add: s2_def)
  qed
  show "\<exists>s1 s2. aggregate st w1 = Inr s1 \<and> aggregate s1 w2 = Inr s2 \<and>
        map fst (cols (comparison_df s1)) = [n1 @ ''_day'', n1 @ ''_night''] \<and>
        map fst (cols (comparison_df s2)) =
          [n1 @ ''_day'', n1 @ ''_night'', n2 @ ''_day'', n2 @ ''_night''] \<and>
        set (idx (comparison_df s2)) = date ` set (forecast w1) \<union> date ` set (forecast w2) \<and>
        distinct (idx (comparison_df s2)) \<and>
        (\<forall>d \<in> set (forecast w1).
           cell (comparison_df s2) 0 (date d) = Some (temp_day d) \<and>
           cell (comparison_df s2) 1 (date d) = Some (temp_night d)) \<and>
        (\<forall>d \<in> set (forecast w2).
           cell (comparison_df s2) 2 (date d) = Some (temp_day d) \<and>
           cell (comparison_df s2) 3 (date d) = Some (temp_night d)) \<and>
        (\<forall>x. x \<notin> date ` set (forecast w1) \<longrightarrow>
           cell (comparison_df s2) 0 x = None \<and> cell (comparison_df s2) 1 x = None) \<and>
        (\<forall>x. x \<notin> date ` set (forecast w2) \<longrightarrow>
           cell (comparison_df s2) 2 x = None \<and> cell (comparison_df s2) 3 x = None) \<and>
        (date ` set (forecast w1) = date ` set (forecast w2) \<and> length (forecast w1) = 7 \<longrightarrow>
           length (cols (comparison_df s2)) = 4 \<and> length (idx (comparison_df s2)) = 7) \<and>
        (date ` set (forecast w1) \<inter> date ` set (forecast w2) = {} \<longrightarrow>
           length (idx (comparison_df s2)) = length (forecast w1) + length (forecast w2))"
    by (rule exI [of _ s1], rule exI [of _ s2], intro conjI)
      (fact g1 g2 c1 c2 i di p1 p2 q1 q2 e j)+
  qed
qed

lemma date_entry_of [simp]: "date (entry_of d) = d"
  by (simp add: entry_of_def)

lemma temps_entry_of: "temp_day (entry_of d) = JNum 30" "temp_night (entry_of d) = JNum 18"
  by (simp_all add: entry_of_def)

lemma weather_of_fields:
  "city (weather_of name ds) = JStr name"
  "forecast (weather_of name ds) = map entry_of ds"
  "weather (weather_of name ds) = JStr ''Mist''"
  by (simp_all add: weather_of_def)

lemma dates_entry_of [simp]:
  "date \<circ> entry_of = id"
  "date ` entry_of ` S = S"
  by (simp_all add: fun_eq_iff date_entry_of image_image)

theorem comparison_outer_join_witness:
  "(\<exists>s1 s2. aggregate (initial offline_env) (weather_of ''Kathmandu'' may_dates) = Inr s1 \<and>
      aggregate s1 (weather_of ''Lalitpur'' may_dates) = Inr s2 \<and>
      map fst (cols (comparison_df s2)) =
        [''Kathmandu_day'', ''Kathmandu_night'', ''Lalitpur_day'', ''Lalitpur_night''] \<and>
      length (idx (comparison_df s2)) = 7) \<and>
   (\<exists>s1 s2. aggregate (initial offline_env) (weather_of ''Kathmandu'' (take 3 may_dates)) = Inr s1 \<and>
      aggregate s1 (weather_of ''Lalitpur'' (drop 3 may_dates)) = Inr s2 \<and>
      set (idx (comparison_df s2)) = set may_dates \<and>
      length (idx (comparison_df s2)) = 7 \<and>
      cell (comparison_df s2) 0 (Date 2024 5 2) = Some (JNum 30) \<and>
      cell (comparison_df s2) 0 (Date 2024 5 6) = None \<and>
      cell (comparison_df s2) 2 (Date 2024 5 2) = None \<and>
      cell (comparison_df s2) 2 (Date 2024 5 6) = Some (JNum 30))"
proof
  let ?k = "weather_of ''Kathmandu'' may_dates" and ?l = "weather_of ''Lalitpur'' may_dates"
  have h: "city ?k = JStr ''Kathmandu'' \<and> city ?l = JStr ''Lalitpur'' \<and>
     distinct (map date (forecast ?k)) \<and> distinct (map date (forecast ?l)) \<and>
     comparison_df (initial offline_env) = empty_frame"
    by (simp add: weather_of_fields initial_def may_dates_facts)
  have d: "date ` set (forecast ?k) = date ` set (forecast ?l) \<and> length (forecast ?k) = 7"
    by (simp add: weather_of_fields may_dates_facts)
  note t = comparison_outer_join
    [where ?w1.0 = ?k and ?n1.0 = "''Kathmandu''" and ?w2.0 = ?l and ?n2.0 = "''Lalitpur''"
       and st = "initial offline_env", THEN conjunct2, THEN mp, OF h]
  from t d show "\<exists>s1 s2. aggregate (initial offline_env) ?k = Inr s1 \<and> aggregate s1 ?l = Inr s2 \<and>
      map fst (cols (comparison_df s2)) =
        [''Kathmandu_day'', ''Kathmandu_night'', ''Lalitpur_day'', ''Lalitpur_night''] \<and>
      length (idx (comparison_df s2)) = 7"
    apply (elim exE conjE)
    apply (rule_tac x = s1 in exI, rule_tac x = s2 in exI)
    apply simp
    done
next
  let ?k = "weather_of ''Kathmandu'' (take 3 may_dates)"
  let ?l = "weather_of ''Lalitpur'' (drop 3 may_dates)"
  have h: "city ?k = JStr ''Kathmandu'' \<and> city ?l = JStr ''Lalitpur'' \<and>
     distinct (map date (forecast ?k)) \<and> distinct (map date (forecast ?l)) \<and>
     comparison_df (initial offline_env) = empty_frame"
    by (simp add: weather_of_fields initial_def may_dates_def)
  have d: "date ` set (forecast ?k) \<inter> date ` set (forecast ?l) = {}"
    by (simp add: weather_of_fields may_dates_def)
  have u: "date ` set (forecast ?k) \<union> date ` set (forecast ?l) = set may_dates"
    by (simp add: weather_of_fields set_append [symmetric] del: set_append)
  have m1: "entry_of (Date 2024 5 2) \<in> set (forecast ?k)"
    by (simp add: weather_of_fields may_dates_def)
  have m2: "entry_of (Date 2024 5 6) \<in> set (forecast ?l)"
    by (simp add: weather_of_fields may_dates_def)
  have n1: "Date 2024 5 6 \<notin> date ` set (forecast ?k)"
    by (simp add: weather_of_fields may_dates_def)
  have n2: "Date 2024 5 2 \<notin> date ` set (forecast ?l)"
    by (simp add: weather_of_fields may_dates_def)
  have l: "length (forecast ?k) + length (forecast ?l) = 7"
    by (simp add: weather_of_fields may_dates_def)
  note t = comparison_outer_join
    [where ?w1.0 = ?k and ?n1.0 = "''Kathmandu''" and ?w2.0 = ?l and ?n2.0 = "''Lalitpur''"
       and st = "initial offline_env", THEN conjunct2, THEN mp, OF h]
  from t show "\<exists>s1 s2. aggregate (initial offline_env) ?k = Inr s1 \<and>
      aggregate s1 ?l = Inr s2 \<and>
      set (idx (comparison_df s2)) = set may_dates \<and>
      length (idx (comparison_df s2)) = 7 \<and>
      cell (comparison_df s2) 0 (Date 2024 5 2) = Some (JNum 30) \<and>
      cell (comparison_df s2) 0 (Date 2024 5 6) = None \<and>
      cell (comparison_df s2) 2 (Date 2024 5 2) = None \<and>
      cell (comparison_df s2) 2 (Date 2024 5 6) = Some (JNum 30)"
  proof (elim exE conjE)
    fix s1 s2
    assume a: "aggregate (initial offline_env) ?k = Inr s1" "aggregate s1 ?l = Inr s2"
      and i: "set (idx (comparison_df s2)) = date ` set (forecast ?k) \<union> date ` set (forecast ?l)"
      and p1: "\<forall>d \<in> set (forecast ?k).
           cell (comparison_df s2) 0 (date d) = Some (temp_day d) \<and>
           cell (comparison_df s2) 1 (date d) = Some (temp_night d)"
      and p2: "\<forall>d \<in> set (forecast ?l).
           cell (comparison_df s2) 2 (date d) = Some (temp_day d) \<and>
           cell (comparison_df s2) 3 (date d) = Some (temp_night d)"
      and q1: "\<forall>x. x \<notin> date ` set (forecast ?k) \<longrightarrow>
           cell (comparison_df s2) 0 x = None \<and> cell (comparison_df s2) 1 x = None"
      and q2: "\<forall>x. x \<notin> date ` set (forecast ?l) \<longrightarrow>
           cell (comparison_df s2) 2 x = None \<and> cell (comparison_df s2) 3 x = None"
      and j: "date ` set (forecast ?k) \<inter> date ` set (forecast ?l) = {} \<longrightarrow>
           length (idx (comparison_df s2)) = length (forecast ?k) + length (forecast ?l)"
    from i u have c1: "set (idx (comparison_df s2)) = set may_dates" by simp
    from j d l have c2: "length (idx (comparison_df s2)) = 7" by simp
    from p1 m1 have c3: "cell (comparison_df s2) 0 (Date 2024 5 2) = Some (JNum 30)"
      by (auto simp: temps_entry_of dest!: bspec)
    from q1 n1 have c4: "cell (comparison_df s2) 0 (Date 2024 5 6) = None" by blast
    from q2 n2 have c5: "cell (comparison_df s2) 2 (Date 2024 5 2) = None" by blast
    from p2 m2 have c6: "cell (comparison_df s2) 2 (Date 2024 5 6) = Some (JNum 30)"
      by (auto simp: temps_entry_of dest!: bspec)
    show ?thesis
      by (rule exI [of _ s1], rule exI [of _ s2], intro conjI) (fact a c1 c2 c3 c4 c5 c6)+
  qed
qed

subsection \<open>Cities that are not found\<close>

lemma city_loop_all_not_found:
  "\<forall>c \<in> set cs. get_weather e c = Inr None \<Longrightarrow>
   city_loop e st cs =
     Inr (st\<lparr>fetched := fetched st @ map (weather_url (API_KEY e)) cs,
             page := page st @ map NotFoundError cs\<rparr>)"
proof (induction cs arbitrary: st)
  case Nil
  then show ?case by simp
next
  case (Cons c cs)
  then show ?case by (simp add: process_city_not_found)
qed

lemma initial_page_plain:
  "(\<forall>rows. DownloadButton rows \<notin> set (page (initial e))) \<and>
   (\<forall>f. Chart f \<notin> set (page (initial e)))"
  by (simp add: initial_def split: option.splits)

text \<open>
  C7. A round for a city that is not found leaves both tables as they were and only
  shows the not-found message; the loop goes on with the remaining cities from that
  state. When no city of the input is found, the pass completes with both tables empty,
  one message per city on the page, and neither the chart nor the download button.
\<close>

theorem not_found_contributes_nothing:
  "(get_weather e c = Inr None \<longrightarrow>
      (\<exists>st'. process_city e st c = Inr st' \<and>
         comparison_df st' = comparison_df st \<and> download_df st' = download_df st \<and>
         page st' = page st @ [NotFoundError c] \<and>
         city_loop e st (c # cs) = city_loop e st' cs)) \<and>
   ((\<forall>c \<in> set (cities inp). get_weather e c = Inr None) \<longrightarrow>
      (\<exists>st. run e inp = Inr st \<and>
         comparison_df st = empty_frame \<and> download_df st = [] \<and>
         page st = page (initial e) @ map NotFoundError (cities inp) \<and>
         (\<forall>rows. DownloadButton rows \<notin> set (page st)) \<and>
         (\<forall>f. Chart f \<notin> set (page st))))"
proof (intro conjI impI)
  assume "get_weather e c = Inr None"
  then show "\<exists>st'. process_city e st c = Inr st' \<and>
         comparison_df st' = comparison_df st \<and> download_df st' = download_df st \<and>
         page st' = page st @ [NotFoundError c] \<and>
         city_loop e st (c # cs) = city_loop e st' cs"
    by (simp add: process_city_not_found)
next
  assume a: "\<forall>c \<in> set (cities inp). get_weather e c = Inr None"
  let ?st = "(initial e)\<lparr>fetched := fetched (initial e) @ map (weather_url (API_KEY e)) (cities inp),
             page := page (initial e) @ map NotFoundError (cities inp)\<rparr>"
  from city_loop_all_not_found [OF a]
  have l: "city_loop e (initial e) (cities inp) = Inr ?st" .
  have t: "comparison_df ?st = empty_frame" "download_df ?st = []"
    by (simp_all add: initial_def)
  then have r: "render_tables ?st = ?st"
    by (simp add: render_tables_def frame_empty_def empty_frame_def)
  from l r have "run e inp = Inr ?st" by (simp add: run_def)
  moreover from initial_page_plain [of e]
  have "(\<forall>rows. DownloadButton rows \<notin> set (page ?st)) \<and> (\<forall>f. Chart f \<notin> set (page ?st))"
    by auto
  ultimately show "\<exists>st. run e inp = Inr st \<and>
         comparison_df st = empty_frame \<and> download_df st = [] \<and>
         page st = page (initial e) @ map NotFoundError (cities inp) \<and>
         (\<forall>rows. DownloadButton rows \<notin> set (page st)) \<and>
         (\<forall>f. Chart f \<notin> set (page st))"
    using t by (intro exI [of _ ?st]) simp
qed

theorem not_found_contributes_nothing_witness:
  "run (sample_env nowhere_table (Date 2024 5 2)) ''Nowhereville'' =
     Inr \<lparr>comparison_df = empty_frame, download_df = [],
          page = [NotFoundError ''Nowhereville''],
          fetched = [''http://api.weatherapi.com/v1/forecast.json?key=k&q=Nowhereville&days=7&aqi=no&alerts=no'']\<rparr>"
proof -
  let ?e = "sample_env nowhere_table (Date 2024 5 2)"
  have c: "cities ''Nowhereville'' = [''Nowhereville'']"
    by (simp add: cities_def split_comma_def strip_def is_space_def)
  have g: "\<forall>c \<in> set (cities ''Nowhereville''). get_weather ?e c = Inr None"
    by (simp add: c nowhere_table_def get_weather_sample_not_found)
  from not_found_contributes_nothing [of ?e _ _ _ "''Nowhereville''"] g
  obtain st where s: "run ?e ''Nowhereville'' = Inr st" "comparison_df st = empty_frame"
    "download_df st = []" "page st = page (initial ?e) @ map NotFoundError (cities ''Nowhereville'')"
    by blast
  from run_tables(3) [OF s(1)] have "fetched st = map (weather_url (API_KEY ?e)) (cities ''Nowhereville'')" .
  with s show ?thesis
    by (simp add: c initial_def weather_url_def)
qed

subsection \<open>No deduplication\<close>



lemma get_weather_one_city:
  "get_weather (sample_env one_city_table p) ''Kathmandu'' = Inr (Some (weather_of ''Kathmandu'' may_dates))"
  "get_weather (sample_env one_city_table p) '''' = Inr None"
  by (simp_all add: one_city_table_def get_weather_sample_not_found
      get_weather_sample_city [OF _ strptime_may_week may_dates_facts(1)])

lemma well_formed_one_city:
  "\<exists>j. map_of one_city_table ''Kathmandu'' = Some j \<and> well_formed_entry j"
  "\<exists>j. map_of one_city_table '''' = Some j \<and> well_formed_entry j"
  by (simp_all add: one_city_table_def well_formed_not_found
      well_formed_city [OF strptime_may_week may_dates_facts(1,2)])


subsection \<open>The list of cities\<close>






subsection \<open>A selected date without a forecast entry\<close>

lemma set_full_bg_animation_events:
  "set_full_bg_animation e c = Inr v \<Longrightarrow>
   (\<forall>a. AlertBanner a \<notin> set v) \<and> (\<forall>d. ForecastHeading d \<notin> set v)"
  by (auto simp: set_full_bg_animation_def Let_def and_then_eq_Inr
      split: json.splits option.splits if_splits)

lemma current_view_events:
  assumes "current_view e w = Inr v"
  shows "(\<forall>a. AlertBanner a \<notin> set v) \<and> (\<forall>d. ForecastHeading d \<notin> set v)"
proof -
  from assms obtain bg lottie_anim where
    b: "set_full_bg_animation e (weather w) = Inr bg" and
    v: "v = bg @
          [OverlayOpen, Subheader (city w) (country w),
           (if truthy lottie_anim
            then StLottie lottie_anim 150 (min (screen_width e div 3) 300)
            else StImage (icon w) 60),
           Write ''Condition'' [weather w],
           Write ''Temperature'' [temp w],
           Write ''Humidity'' [humidity w],
           Write ''Wind'' [wind_kph w, wind_dir w],
           Write ''Sunrise Sunset'' [sunrise w, sunset w]]"
    by (auto simp: current_view_def and_then_eq_Inr)
  from set_full_bg_animation_events [OF b] v show ?thesis by auto
qed

lemma forecast_for_date_None:
  "sel \<notin> date ` set (forecast w) \<Longrightarrow> forecast_for_date w sel = None"
  by (auto simp: forecast_for_date_def find_None_iff)

text \<open>
  C10. When the date selected for a city that was found is the date of none of its
  forecast entries, the lookup gives \<^verbatim>\<open>None\<close> and raises nothing, and the round
  consists of the current conditions and the aggregation only: if it returns, the page
  has gained the current conditions, the date widget and the closing tag, with no
  forecast heading and no alert banner, and both tables have taken the city in.
\<close>

theorem unmatched_date_skips_forecast:
  "get_weather e c = Inr (Some w) \<and> date_input e (city w) \<notin> date ` set (forecast w) \<longrightarrow>
     forecast_for_date w (date_input e (city w)) = None \<and>
     process_city e st c =
       and_then (current_view e w) (\<lambda>v1.
       and_then (aggregate (st\<lparr>fetched := fetched st @ [weather_url (API_KEY e) c]\<rparr>) w) (\<lambda>st2.
       Inr (st2\<lparr>page := page st2 @ v1 @ [DateInput (city w), OverlayClose]\<rparr>))) \<and>
     (\<forall>st'. process_city e st c = Inr st' \<longrightarrow>
        (\<exists>v1. current_view e w = Inr v1 \<and>
           page st' = page st @ v1 @ [DateInput (city w), OverlayClose] \<and>
           (\<forall>a. AlertBanner a \<notin> set v1) \<and> (\<forall>d. ForecastHeading d \<notin> set v1)) \<and>
        cols (comparison_df st') = cols (comparison_df st) @ temp_cols w \<and>
        download_df st' = download_df st @ export_rows w)"
proof
  assume a: "get_weather e c = Inr (Some w) \<and> date_input e (city w) \<notin> date ` set (forecast w)"
  then have g: "get_weather e c = Inr (Some w)" by simp
  from a have n: "forecast_for_date w (date_input e (city w)) = None"
    by (simp add: forecast_for_date_None)
  have p: "process_city e st c =
       and_then (current_view e w) (\<lambda>v1.
       and_then (aggregate (st\<lparr>fetched := fetched st @ [weather_url (API_KEY e) c]\<rparr>) w) (\<lambda>st2.
       Inr (st2\<lparr>page := page st2 @ v1 @ [DateInput (city w), OverlayClose]\<rparr>)))"
    by (simp add: process_city_found [OF g] n)
  have q: "(\<exists>v1. current_view e w = Inr v1 \<and>
           page st' = page st @ v1 @ [DateInput (city w), OverlayClose] \<and>
           (\<forall>a. AlertBanner a \<notin> set v1) \<and> (\<forall>d. ForecastHeading d \<notin> set v1)) \<and>
        cols (comparison_df st') = cols (comparison_df st) @ temp_cols w \<and>
        download_df st' = download_df st @ export_rows w"
    if s: "process_city e st c = Inr st'" for st'
  proof -
    from s p obtain v1 st2 where
      v: "current_view e w = Inr v1" and
      ag: "aggregate (st\<lparr>fetched := fetched st @ [weather_url (API_KEY e) c]\<rparr>) w = Inr st2" and
      e: "st' = st2\<lparr>page := page st2 @ v1 @ [DateInput (city w), OverlayClose]\<rparr>"
      by (auto simp: and_then_eq_Inr)
    from aggregate_tables(4) [OF ag] e have "page st' = page st @ v1 @ [DateInput (city w), OverlayClose]"
      by simp
    with v current_view_events [OF v] process_city_found_tables(1,2) [OF g s]
    show ?thesis by blast
  qed
  from q have q': "\<forall>st'. process_city e st c = Inr st' \<longrightarrow>
        (\<exists>v1. current_view e w = Inr v1 \<and>
           page st' = page st @ v1 @ [DateInput (city w), OverlayClose] \<and>
           (\<forall>a. AlertBanner a \<notin> set v1) \<and> (\<forall>d. ForecastHeading d \<notin> set v1)) \<and>
        cols (comparison_df st') = cols (comparison_df st) @ temp_cols w \<and>
        download_df st' = download_df st @ export_rows w"
    by (intro allI impI)
  show "forecast_for_date w (date_input e (city w)) = None \<and>
     process_city e st c =
       and_then (current_view e w) (\<lambda>v1.
       and_then (aggregate (st\<lparr>fetched := fetched st @ [weather_url (API_KEY e) c]\<rparr>) w) (\<lambda>st2.
       Inr (st2\<lparr>page := page st2 @ v1 @ [DateInput (city w), OverlayClose]\<rparr>))) \<and>
     (\<forall>st'. process_city e st c = Inr st' \<longrightarrow>
        (\<exists>v1. current_view e w = Inr v1 \<and>
           page st' = page st @ v1 @ [DateInput (city w), OverlayClose] \<and>
           (\<forall>a. AlertBanner a \<notin> set v1) \<and> (\<forall>d. ForecastHeading d \<notin> set v1)) \<and>
        cols (comparison_df st') = cols (comparison_df st) @ temp_cols w \<and>
        download_df st' = download_df st @ export_rows w)"
    by (rule conjI [OF n conjI [OF p q']])
qed

theorem unmatched_date_skips_forecast_witness:
  "forecast_for_date (weather_of ''Kathmandu'' may_dates) (Date 2024 6 2) = None \<and>
   \<not> isl (process_city (sample_env one_city_table (Date 2024 6 2))
            (initial (sample_env one_city_table (Date 2024 6 2))) ''Kathmandu'') \<and>
   length (download_df (projr (process_city (sample_env one_city_table (Date 2024 6 2))
            (initial (sample_env one_city_table (Date 2024 6 2))) ''Kathmandu''))) = 7 \<and>
   length (cols (comparison_df (projr (process_city (sample_env one_city_table (Date 2024 6 2))
            (initial (sample_env one_city_table (Date 2024 6 2))) ''Kathmandu'')))) = 2 \<and>
   AlertBanner HotDay \<notin> set (page (projr (process_city (sample_env one_city_table (Date 2024 6 2))
            (initial (sample_env one_city_table (Date 2024 6 2))) ''Kathmandu'')))"
proof -
  let ?e = "sample_env one_city_table (Date 2024 6 2)"
  let ?w = "weather_of ''Kathmandu'' may_dates"
  let ?p = "process_city ?e (initial ?e) ''Kathmandu''"
  have i: "distinct (idx (comparison_df (initial ?e)))"
    by (simp add: initial_def empty_frame_def)
  from well_formed_one_city(1) obtain j where
    "map_of one_city_table ''Kathmandu'' = Some j" "well_formed_entry j" by blast
  from process_city_sample [OF this i, of "Date 2024 6 2"] have ok: "\<not> isl ?p" by auto
  then have r: "?p = Inr (projr ?p)" by (cases ?p) simp_all
  have h: "get_weather ?e ''Kathmandu'' = Inr (Some ?w) \<and>
      date_input ?e (city ?w) \<notin> date ` set (forecast ?w)"
    by (simp add: get_weather_one_city weather_of_fields may_dates_def)
  note t = unmatched_date_skips_forecast [of ?e "''Kathmandu''" ?w "initial ?e", THEN mp, OF h]
  from t have n: "forecast_for_date ?w (Date 2024 6 2) = None" by simp
  from t r have "(\<exists>v1. current_view ?e ?w = Inr v1 \<and>
           page (projr ?p) = page (initial ?e) @ v1 @ [DateInput (city ?w), OverlayClose] \<and>
           (\<forall>a. AlertBanner a \<notin> set v1) \<and> (\<forall>d. ForecastHeading d \<notin> set v1)) \<and>
        cols (comparison_df (projr ?p)) = cols (comparison_df (initial ?e)) @ temp_cols ?w \<and>
        download_df (projr ?p) = download_df (initial ?e) @ export_rows ?w"
    by blast
  then have "length (download_df (projr ?p)) = 7 \<and> length (cols (comparison_df (projr ?p))) = 2 \<and>
      AlertBanner HotDay \<notin> set (page (projr ?p))"
    by (auto simp: initial_def empty_frame_def temp_cols_def export_rows_def temp_df_def
        city_csv_df_def weather_of_fields may_dates_facts)
  with n ok show ?thesis by blast
qed

end
